theory Spec2Isabelle
  imports Complex_Main "HOL-Library.Word" "HOL-Library.AList"
begin

section \<open>Scalar resources\<close>

text \<open>
  Modelled from the spec: the package \<open>hostmgr/scalar\<close> (type \<open>Resources\<close> with
  \<open>Add\<close>, \<open>Subtract\<close>, \<open>Contains\<close>, \<open>FromOffer\<close>, \<open>FromOfferMap\<close>) is used by the
  offer pool but is not among the sources. Section 3 of the spec describes it as a
  record \<open>{cpu, mem, disk, gpu, ports_count}\<close> of non-negative reals with componentwise
  \<open>Add\<close>, \<open>Subtract\<close> and \<open>Contains\<close> (componentwise \<open>\<ge>\<close>), where a \<open>Subtract\<close> of
  something that is not contained proceeds and saturates at zero. The Go code uses
  \<open>float64\<close>; the components are idealised here as exact reals.
\<close>

record Resources =
  CPU :: real
  Mem :: real
  Disk :: real
  GPU :: real
  Ports :: real

definition ZeroResources :: Resources where
  "ZeroResources = \<lparr>CPU = 0, Mem = 0, Disk = 0, GPU = 0, Ports = 0\<rparr>"

definition Add :: "Resources \<Rightarrow> Resources \<Rightarrow> Resources" where
  "Add a b = \<lparr>CPU = CPU a + CPU b, Mem = Mem a + Mem b, Disk = Disk a + Disk b,
              GPU = GPU a + GPU b, Ports = Ports a + Ports b\<rparr>"

definition sat_sub :: "real \<Rightarrow> real \<Rightarrow> real" where
  "sat_sub x y = (if x < y then 0 else x - y)"

definition Subtract :: "Resources \<Rightarrow> Resources \<Rightarrow> Resources" where
  "Subtract a b = \<lparr>CPU = sat_sub (CPU a) (CPU b), Mem = sat_sub (Mem a) (Mem b),
                   Disk = sat_sub (Disk a) (Disk b), GPU = sat_sub (GPU a) (GPU b),
                   Ports = sat_sub (Ports a) (Ports b)\<rparr>"

definition Contains :: "Resources \<Rightarrow> Resources \<Rightarrow> bool" where
  "Contains a b \<longleftrightarrow> CPU a \<ge> CPU b \<and> Mem a \<ge> Mem b \<and> Disk a \<ge> Disk b
                    \<and> GPU a \<ge> GPU b \<and> Ports a \<ge> Ports b"

text \<open>The data-model invariant of section 3: every component is non-negative.\<close>

definition NonNegative :: "Resources \<Rightarrow> bool" where
  "NonNegative a \<longleftrightarrow> Contains a ZeroResources"

section \<open>Offers and host summaries\<close>

text \<open>
  Modelled from the spec: the generated type \<open>mesos.Offer\<close> is not among the sources.
  An offer is kept as its id, hostname and agent id (all three set by
  \<open>getMesosOffer\<close> of the pool test), the scalar quantity that \<open>scalar.FromOffer\<close>
  reads off its resource list, and whether its resources carry a labelled reservation
  (\<open>createReservedMesosOffer\<close> of the pool test). The protobuf pointers \<open>Id.Value\<close> and
  \<open>Hostname\<close>, which the pool dereferences, are taken to be set.
\<close>

record Offer =
  OfferId :: string
  OfferHostname :: string
  AgentId :: string
  OfferScalar :: Resources
  OfferReserved :: bool

definition FromOffer :: "Offer \<Rightarrow> Resources" where
  "FromOffer offer = OfferScalar offer"

text \<open>
  A Go map that is only looked up, stored into and deleted from is a HOL map. A Go map
  whose values are also enumerated (summed, returned as a slice) is an association list
  with distinct keys, maintained by \<open>AList.update\<close> and \<open>AList.delete\<close>; the order of the
  list stands for the iteration order, which no result below depends on except for the
  order of the returned slice.
\<close>

type_synonym OfferMap = "(string \<times> Offer) list"

definition FromOfferMap :: "OfferMap \<Rightarrow> Resources" where
  "FromOfferMap offerMap = fold (\<lambda>(id, offer) acc. Add acc (FromOffer offer)) offerMap ZeroResources"

text \<open>
  Modelled from the spec: the package \<open>hostmgr/summary\<close> (interface \<open>HostSummary\<close>) is
  not among the sources; the pool calls its methods \<open>HasAnyOffer\<close>, \<open>AddMesosOffer\<close>,
  \<open>RemoveMesosOffer\<close>, \<open>CasStatus\<close>, \<open>UnreservedAmount\<close>, \<open>ClaimForLaunch\<close> and
  \<open>ClaimReservedOffersForLaunch\<close>. Sections 3 and 4.2 of the spec give a summary a
  status in \<open>{READY, PLACING, RESERVED}\<close>, a status expiration that is set while the
  status is PLACING, and one bag \<open>offers: map<offer_id, Offer>\<close>. The fields
  \<open>held_for_tasks\<close> and \<open>volumes\<close> are read by no operation modelled here and are left
  out. The two status names that the pool itself mentions are \<open>summary.ReadyOffer\<close> and
  \<open>summary.PlacingOffer\<close>.
\<close>

datatype CacheStatus = ReadyOffer | PlacingOffer | ReservedOffer

record HostSummary =
  status :: CacheStatus
  offers :: OfferMap

datatype error = Error string | NilDereference

text \<open>Modelled from the spec: \<open>summary.New\<close>, a READY summary without offers.\<close>

definition New :: HostSummary where
  "New = \<lparr>status = ReadyOffer, offers = []\<rparr>"

text \<open>Modelled from the spec: \<open>HasAnyOffer\<close>, reserved and unreserved offers alike.\<close>

definition HasAnyOffer :: "HostSummary \<Rightarrow> bool" where
  "HasAnyOffer s \<longleftrightarrow> offers s \<noteq> []"

text \<open>
  Modelled from the spec: \<open>AddMesosOffer\<close> puts the offer into the bag under its id and
  returns the status of the summary for the pool's accounting (section 4.2).
\<close>

definition AddMesosOffer :: "HostSummary \<Rightarrow> Offer \<Rightarrow> CacheStatus \<times> HostSummary" where
  "AddMesosOffer s offer =
     (status s, s\<lparr>offers := AList.update (OfferId offer) offer (offers s)\<rparr>)"

text \<open>
  Modelled from the spec: \<open>RemoveMesosOffer\<close> takes the offer with the given id out of
  the bag and returns the status together with the removed offer, \<open>None\<close> (Go: nil)
  when the bag has no such offer.
\<close>

definition RemoveMesosOffer ::
  "HostSummary \<Rightarrow> string \<Rightarrow> CacheStatus \<times> Offer option \<times> HostSummary" where
  "RemoveMesosOffer s offerID =
     (status s, map_of (offers s) offerID, s\<lparr>offers := AList.delete offerID (offers s)\<rparr>)"

text \<open>Modelled from the spec: the unreserved offers of a summary and their amount.\<close>

definition unreservedOffers :: "HostSummary \<Rightarrow> OfferMap" where
  "unreservedOffers s = filter (\<lambda>(id, offer). \<not> OfferReserved offer) (offers s)"

definition reservedOffers :: "HostSummary \<Rightarrow> OfferMap" where
  "reservedOffers s = filter (\<lambda>(id, offer). OfferReserved offer) (offers s)"

definition UnreservedAmount :: "HostSummary \<Rightarrow> Resources" where
  "UnreservedAmount s = FromOfferMap (unreservedOffers s)"

text \<open>
  Modelled from the spec: \<open>CasStatus\<close>, the compare-and-swap mutator of invariant (a) of
  the host summary. It fails, leaving the summary as it is, when the current status is
  not the expected one.
\<close>

definition CasStatus :: "HostSummary \<Rightarrow> CacheStatus \<Rightarrow> CacheStatus \<Rightarrow> error + HostSummary" where
  "CasStatus s old new =
     (if status s \<noteq> old then Inl (Error ''invalid cache status'')
      else Inr (s\<lparr>status := new\<rparr>))"

text \<open>
  Modelled from the spec: \<open>ClaimForLaunch\<close> of a summary (section 4.2, PLACING to
  terminal): only a PLACING summary can be claimed; its unreserved offers leave the bag
  and are returned, and the summary is READY again (section 4.1).
  \<open>ClaimReservedOffersForLaunch\<close> hands out the reserved offers and leaves the status.
\<close>

definition summary_ClaimForLaunch :: "HostSummary \<Rightarrow> error + (OfferMap \<times> HostSummary)" where
  "summary_ClaimForLaunch s =
     (if status s \<noteq> PlacingOffer then Inl (Error ''host status is not Placing'')
      else Inr (unreservedOffers s, s\<lparr>status := ReadyOffer, offers := reservedOffers s\<rparr>))"

definition ClaimReservedOffersForLaunch :: "HostSummary \<Rightarrow> error + (OfferMap \<times> HostSummary)" where
  "ClaimReservedOffersForLaunch s = Inr (reservedOffers s, s\<lparr>offers := unreservedOffers s\<rparr>)"

section \<open>The host matcher\<close>

text \<open>
  Modelled from the spec: the matcher (\<open>NewMatcher\<close>, \<open>tryMatch\<close>, \<open>HasEnoughHosts\<close>,
  \<open>getHostOffers\<close>) and the generated type \<open>hostsvc.HostFilter\<close> are not among the
  sources; the pool's \<open>ClaimForPlace\<close> drives them. Section 4.3 of the spec: a filter
  carries a resource constraint and a quantity \<open>max_hosts\<close>; a host matches when (1) its
  status is READY and its summary contains the resource constraint, (2) the label
  predicate holds under the constraint evaluator and (3) the GPU and scarce-resource
  affinity is respected; a matched host is claimed, READY to PLACING (section 4.2);
  the matcher stops when \<open>matched \<ge> quantity.max_hosts\<close>; every considered host is
  counted under its classification. The pool's loop also leaves when the matcher has
  enough hosts, after the host it has just handed over; \<open>tryMatch\<close> is given the same
  test, so that a matcher with enough hosts matches no further host and counts the
  host as over the limit. Checks (2) and (3) are the parameter \<open>evaluate\<close>,
  which classifies a host and answers \<open>MATCH\<close> when both pass; the hints, which the
  pool's loop does not read, are left out. \<open>max_hosts\<close> is a \<open>uint32\<close>, and zero when
  the filter has no quantity.
\<close>

datatype HostFilterResult =
  MATCH | INSUFFICIENT_RESOURCES | MISMATCH_CONSTRAINTS | MISMATCH_GPU
  | MISMATCH_SCARCE_RESOURCES | MISMATCH_STATUS | MISMATCH_MAX_HOST_LIMIT

record HostFilter =
  Minimum :: Resources
  MaxHosts :: "32 word"

type_synonym Evaluator = "string \<Rightarrow> HostSummary \<Rightarrow> HostFilterResult"

definition TryMatch ::
  "Evaluator \<Rightarrow> HostFilter \<Rightarrow> string \<Rightarrow> HostSummary
     \<Rightarrow> HostFilterResult \<times> Offer list \<times> HostSummary" where
  "TryMatch evaluate hostFilter hostname s =
     (if status s \<noteq> ReadyOffer then (MISMATCH_STATUS, [], s)
      else if \<not> Contains (UnreservedAmount s) (Minimum hostFilter)
      then (INSUFFICIENT_RESOURCES, [], s)
      else (case evaluate hostname s of
              MATCH \<Rightarrow> (MATCH, map snd (unreservedOffers s), s\<lparr>status := PlacingOffer\<rparr>)
            | r \<Rightarrow> (r, [], s)))"

record Matcher =
  m_hostFilter :: HostFilter
  m_hostOffers :: "(string \<times> Offer list) list"
  m_resultCounts :: "HostFilterResult \<rightharpoonup> 32 word"

definition NewMatcher :: "HostFilter \<Rightarrow> Matcher" where
  "NewMatcher f = \<lparr>m_hostFilter = f, m_hostOffers = [], m_resultCounts = Map.empty\<rparr>"

definition HasEnoughHosts :: "Matcher \<Rightarrow> bool" where
  "HasEnoughHosts m \<longleftrightarrow>
     (word_of_nat (length (m_hostOffers m)) :: 32 word) \<ge> MaxHosts (m_hostFilter m)"

definition countResult :: "HostFilterResult \<Rightarrow> Matcher \<Rightarrow> Matcher" where
  "countResult r m =
     m\<lparr>m_resultCounts :=
         (m_resultCounts m)(r \<mapsto> (case m_resultCounts m r of
                                         None \<Rightarrow> 1 | Some c \<Rightarrow> c + 1))\<rparr>"

definition tryMatch ::
  "Evaluator \<Rightarrow> string \<Rightarrow> HostSummary \<Rightarrow> Matcher \<Rightarrow> Matcher \<times> HostSummary" where
  "tryMatch evaluate hostname s m =
     (if HasEnoughHosts m then (countResult MISMATCH_MAX_HOST_LIMIT m, s)
      else
        let (r, matched, s') = TryMatch evaluate (m_hostFilter m) hostname s;
            m' = (if r = MATCH
                  then m\<lparr>m_hostOffers := AList.update hostname matched (m_hostOffers m)\<rparr>
                  else m)
        in (countResult r m', s'))"

definition getHostOffers ::
  "Matcher \<Rightarrow> (string \<times> Offer list) list \<times> (HostFilterResult \<rightharpoonup> 32 word)" where
  "getHostOffers m = (m_hostOffers m, m_resultCounts m)"

section \<open>The offer pool\<close>

text \<open>
  \<open>TimedOffer\<close> and \<open>offerPool\<close> of the pool source. Instants are integers (nanoseconds).
  The locks, the scheduler client, the volume store and the metric gauges are left out:
  every operation below is one atomic step. \<open>availableHosts\<close> is the \<open>atomic.Uint32\<close>
  counter, whose \<open>Inc\<close> and \<open>Dec\<close> wrap.
\<close>

record TimedOffer =
  Hostname :: string
  Expiration :: int

record offerPool =
  hostOfferIndex :: "string \<rightharpoonup> HostSummary"
  availableHosts :: "32 word"
  timedOffers :: "string \<rightharpoonup> TimedOffer"
  offerHoldTime :: int
  readyResources :: Resources
  placingResources :: Resources

definition incQuantity :: "Resources \<Rightarrow> Resources \<Rightarrow> Resources" where
  "incQuantity resources delta = Add resources delta"

definition decQuantity :: "Resources \<Rightarrow> Resources \<Rightarrow> Resources" where
  "decQuantity resources delta = Subtract resources delta"

text \<open>
  The accounting switch shared by \<open>tryAddOffer\<close>, \<open>addOffer\<close>, \<open>RescindOffer\<close> and
  \<open>RemoveExpiredOffers\<close>: the bucket is chosen by the status the summary returned; any
  other status only logs an error.
\<close>

definition incByStatus :: "CacheStatus \<Rightarrow> Resources \<Rightarrow> offerPool \<Rightarrow> offerPool" where
  "incByStatus st delta p =
     (case st of
        ReadyOffer \<Rightarrow> p\<lparr>readyResources := incQuantity (readyResources p) delta\<rparr>
      | PlacingOffer \<Rightarrow> p\<lparr>placingResources := incQuantity (placingResources p) delta\<rparr>
      | _ \<Rightarrow> p)"

definition decByStatus :: "CacheStatus \<Rightarrow> Resources \<Rightarrow> offerPool \<Rightarrow> offerPool" where
  "decByStatus st delta p =
     (case st of
        ReadyOffer \<Rightarrow> p\<lparr>readyResources := decQuantity (readyResources p) delta\<rparr>
      | PlacingOffer \<Rightarrow> p\<lparr>placingResources := decQuantity (placingResources p) delta\<rparr>
      | _ \<Rightarrow> p)"

text \<open>
  \<open>RescindOffer\<close>: the entry is deleted from \<open>timedOffers\<close> before the host is looked
  up, so the early \<open>return false\<close> for an unknown host keeps that deletion.
\<close>

definition RescindOffer :: "string \<Rightarrow> offerPool \<Rightarrow> bool \<times> offerPool" where
  "RescindOffer oID p =
     (case timedOffers p oID of
        None \<Rightarrow> (False, p)
      | Some offer \<Rightarrow>
          let p1 = p\<lparr>timedOffers := (timedOffers p)(oID := None)\<rparr>;
              hostName = Hostname offer
          in (case hostOfferIndex p1 hostName of
                None \<Rightarrow> (False, p1)
              | Some hostOffers \<Rightarrow>
                  let (st, removed, hostOffers') = RemoveMesosOffer hostOffers oID;
                      p2 = p1\<lparr>hostOfferIndex := (hostOfferIndex p1)(hostName \<mapsto> hostOffers')\<rparr>;
                      p3 = (case removed of
                              None \<Rightarrow> p2
                            | Some r \<Rightarrow> decByStatus st (FromOffer r) p2);
                      p4 = (if \<not> HasAnyOffer hostOffers'
                            then p3\<lparr>availableHosts := availableHosts p3 - 1\<rparr> else p3)
                  in (True, p4)))"

text \<open>\<open>NewOfferPool\<close>: no hosts, no offers, both buckets zero.\<close>

definition NewOfferPool :: "int \<Rightarrow> offerPool" where
  "NewOfferPool holdTime =
     \<lparr>hostOfferIndex = Map.empty, availableHosts = 0, timedOffers = Map.empty,
      offerHoldTime = holdTime, readyResources = ZeroResources,
      placingResources = ZeroResources\<rparr>"

text \<open>
  \<open>tryAddOffer\<close> answers false when the pool has no summary for the offer's host;
  \<open>addOffer\<close> creates the summary first. Neither uses its \<open>expiration\<close> argument.
\<close>

definition tryAddOffer :: "Offer \<Rightarrow> int \<Rightarrow> offerPool \<Rightarrow> bool \<times> offerPool" where
  "tryAddOffer offer expiration p =
     (let hostName = OfferHostname offer
      in (case hostOfferIndex p hostName of
            None \<Rightarrow> (False, p)
          | Some s \<Rightarrow>
              let p1 = (if \<not> HasAnyOffer s
                        then p\<lparr>availableHosts := availableHosts p + 1\<rparr> else p);
                  (st, s') = AddMesosOffer s offer;
                  p2 = p1\<lparr>hostOfferIndex := (hostOfferIndex p1)(hostName \<mapsto> s')\<rparr>
              in (True, incByStatus st (FromOffer offer) p2)))"

definition addOffer :: "Offer \<Rightarrow> int \<Rightarrow> offerPool \<Rightarrow> offerPool" where
  "addOffer offer expiration p =
     (let hostName = OfferHostname offer;
          p0 = (case hostOfferIndex p hostName of
                  None \<Rightarrow> p\<lparr>hostOfferIndex := (hostOfferIndex p)(hostName \<mapsto> New)\<rparr>
                | Some _ \<Rightarrow> p);
          s = (case hostOfferIndex p0 hostName of None \<Rightarrow> New | Some s0 \<Rightarrow> s0);
          p1 = (if \<not> HasAnyOffer s
                then p0\<lparr>availableHosts := availableHosts p0 + 1\<rparr> else p0);
          (st, s') = AddMesosOffer s offer;
          p2 = p1\<lparr>hostOfferIndex := (hostOfferIndex p1)(hostName \<mapsto> s')\<rparr>
      in incByStatus st (FromOffer offer) p2)"

text \<open>
  \<open>AddOffers\<close>: \<open>now\<close> is what \<open>time.Now()\<close> returns. The first loop indexes every
  offer under its host, the second records every offer in \<open>timedOffers\<close>.
\<close>

definition addOne :: "int \<Rightarrow> Offer \<Rightarrow> offerPool \<Rightarrow> offerPool" where
  "addOne expiration offer p =
     (let (result, p') = tryAddOffer offer expiration p
      in if \<not> result then addOffer offer expiration p' else p')"

definition setTimed :: "int \<Rightarrow> Offer \<Rightarrow> offerPool \<Rightarrow> offerPool" where
  "setTimed expiration offer p =
     p\<lparr>timedOffers := (timedOffers p)(OfferId offer \<mapsto>
          \<lparr>Hostname = OfferHostname offer, Expiration = expiration\<rparr>)\<rparr>"

definition AddOffers :: "int \<Rightarrow> Offer list \<Rightarrow> offerPool \<Rightarrow> offerPool" where
  "AddOffers now newOffers p =
     (let expiration = now + offerHoldTime p;
          p1 = fold (addOne expiration) newOffers p
      in fold (setTimed expiration) newOffers p1)"

text \<open>
  \<open>ClaimForPlace\<close>. The Go loop ranges over the map \<open>hostOfferIndex\<close> in an order of
  the runtime's choosing: \<open>order\<close> is that order, a list of hostnames, and a name
  without a summary is skipped. The summaries are shared with the index, so the status
  change made by the matcher is a change of the pool. A nil filter is \<open>None\<close>.
\<close>

fun matchHosts ::
  "Evaluator \<Rightarrow> string list \<Rightarrow> (string \<rightharpoonup> HostSummary) \<Rightarrow> Matcher
     \<Rightarrow> (string \<rightharpoonup> HostSummary) \<times> Matcher" where
  "matchHosts evaluate [] index m = (index, m)"
| "matchHosts evaluate (hostname # rest) index m =
     (case index hostname of
        None \<Rightarrow> matchHosts evaluate rest index m
      | Some s \<Rightarrow>
          let (m', s') = tryMatch evaluate hostname s m;
              index' = index(hostname \<mapsto> s')
          in if HasEnoughHosts m' then (index', m')
             else matchHosts evaluate rest index' m')"

definition offersDelta :: "(string \<times> Offer list) list \<Rightarrow> Resources" where
  "offersDelta hostOffers =
     fold (\<lambda>(hostname, matched) delta.
             fold (\<lambda>offer delta'. Add delta' (FromOffer offer)) matched delta)
          hostOffers ZeroResources"

definition ClaimForPlace ::
  "Evaluator \<Rightarrow> string list \<Rightarrow> HostFilter option \<Rightarrow> offerPool
     \<Rightarrow> error + ((string \<times> Offer list) list \<times> (HostFilterResult \<rightharpoonup> 32 word) \<times> offerPool)" where
  "ClaimForPlace evaluate order hostFilter p =
     (case hostFilter of
        None \<Rightarrow> Inl (Error ''empty HostFilter passed in'')
      | Some f \<Rightarrow>
          let (index, matcher) = matchHosts evaluate order (hostOfferIndex p) (NewMatcher f);
              p1 = p\<lparr>hostOfferIndex := index\<rparr>;
              (hostOffers, resultCount) = getHostOffers matcher;
              delta = offersDelta hostOffers;
              p2 = (if length hostOffers > 0
                    then p1\<lparr>placingResources := incQuantity (placingResources p1) delta,
                            readyResources := decQuantity (readyResources p1) delta\<rparr>
                    else p1)
          in Inr (hostOffers, resultCount, p2))"

text \<open>
  \<open>ClaimForLaunch\<close>. Go calls the method on \<open>p.hostOfferIndex[hostname]\<close> without
  a check, which is a nil dereference when the host has no summary.
\<close>

definition ClaimForLaunch :: "string \<Rightarrow> bool \<Rightarrow> offerPool \<Rightarrow> error + (OfferMap \<times> offerPool)" where
  "ClaimForLaunch hostname useReservedOffers p =
     (case hostOfferIndex p hostname of
        None \<Rightarrow> Inl NilDereference
      | Some s \<Rightarrow>
          (case (if useReservedOffers then ClaimReservedOffersForLaunch s
                 else summary_ClaimForLaunch s) of
             Inl err \<Rightarrow> Inl err
           | Inr (offerMap, s') \<Rightarrow>
               let p1 = p\<lparr>hostOfferIndex := (hostOfferIndex p)(hostname \<mapsto> s')\<rparr>;
                   p2 = fold (\<lambda>(id, offer) q. q\<lparr>timedOffers := (timedOffers q)(id := None)\<rparr>)
                          offerMap p1;
                   p3 = (if \<not> useReservedOffers
                         then p2\<lparr>placingResources :=
                                   decQuantity (placingResources p2) (FromOfferMap offerMap)\<rparr>
                         else p2);
                   p4 = (if \<not> HasAnyOffer s'
                         then p3\<lparr>availableHosts := availableHosts p3 - 1\<rparr> else p3)
               in Inr (offerMap, p4)))"

text \<open>
  \<open>RemoveExpiredOffers\<close>. \<open>now\<close> is what \<open>time.Now()\<close> returns; \<open>order\<close> is the order
  in which the runtime ranges over \<open>timedOffers\<close>. The first loop moves every expired
  entry from \<open>timedOffers\<close> to \<open>offersToDecline\<close>; the second loop ranges over
  \<open>offersToDecline\<close>, here in the order of the first, and takes each offer out of the
  bag of its host. The method call on \<open>p.hostOfferIndex[hostName]\<close> is unchecked here
  too.
\<close>

definition expiredIn :: "int \<Rightarrow> (string \<rightharpoonup> TimedOffer) \<Rightarrow> string \<Rightarrow> bool" where
  "expiredIn now timed offerID =
     (case timed offerID of None \<Rightarrow> False | Some t \<Rightarrow> now > Expiration t)"

fun collectExpired ::
  "int \<Rightarrow> string list \<Rightarrow> (string \<rightharpoonup> TimedOffer) \<Rightarrow> (string \<rightharpoonup> TimedOffer)
     \<Rightarrow> (string \<rightharpoonup> TimedOffer) \<times> (string \<rightharpoonup> TimedOffer)" where
  "collectExpired now [] offersToDecline timed = (offersToDecline, timed)"
| "collectExpired now (offerID # rest) offersToDecline timed =
     (case timed offerID of
        None \<Rightarrow> collectExpired now rest offersToDecline timed
      | Some timedOffer \<Rightarrow>
          if now > Expiration timedOffer
          then collectExpired now rest (offersToDecline(offerID \<mapsto> timedOffer))
                 (timed(offerID := None))
          else collectExpired now rest offersToDecline timed)"

fun removeFromHosts :: "(string \<times> TimedOffer) list \<Rightarrow> offerPool \<Rightarrow> error + offerPool" where
  "removeFromHosts [] p = Inr p"
| "removeFromHosts ((offerID, offer) # rest) p =
     (let hostName = Hostname offer
      in (case hostOfferIndex p hostName of
            None \<Rightarrow> Inl NilDereference
          | Some s \<Rightarrow>
              let (st, removed, s') = RemoveMesosOffer s offerID;
                  p2 = p\<lparr>hostOfferIndex := (hostOfferIndex p)(hostName \<mapsto> s')\<rparr>;
                  p3 = (case removed of
                          None \<Rightarrow> p2
                        | Some r \<Rightarrow> decByStatus st (FromOffer r) p2);
                  p4 = (if \<not> HasAnyOffer s'
                        then p3\<lparr>availableHosts := availableHosts p3 - 1\<rparr> else p3)
              in removeFromHosts rest p4))"

definition RemoveExpiredOffers ::
  "int \<Rightarrow> string list \<Rightarrow> offerPool \<Rightarrow> error + ((string \<rightharpoonup> TimedOffer) \<times> nat \<times> offerPool)" where
  "RemoveExpiredOffers now order p =
     (let (offersToDecline, timed) = collectExpired now order Map.empty (timedOffers p);
          p1 = p\<lparr>timedOffers := timed\<rparr>
      in (case removeFromHosts
                 (List.map_filter (\<lambda>offerID. map_option (Pair offerID) (offersToDecline offerID))
                    order) p1 of
            Inl err \<Rightarrow> Inl err
          | Inr p2 \<Rightarrow> Inr (offersToDecline, card (dom (timedOffers p2)), p2)))"

text \<open>
  \<open>ReturnUnusedOffers\<close>: the result is the returned error, \<open>None\<close> for Go's nil.
\<close>

definition ReturnUnusedOffers :: "string \<Rightarrow> offerPool \<Rightarrow> error option \<times> offerPool" where
  "ReturnUnusedOffers hostname p =
     (case hostOfferIndex p hostname of
        None \<Rightarrow> (None, p)
      | Some hostOffers \<Rightarrow>
          (case CasStatus hostOffers PlacingOffer ReadyOffer of
             Inl err \<Rightarrow> (Some err, p)
           | Inr hostOffers' \<Rightarrow>
               let delta = UnreservedAmount hostOffers';
                   p1 = p\<lparr>hostOfferIndex := (hostOfferIndex p)(hostname \<mapsto> hostOffers')\<rparr>
               in (None, p1\<lparr>placingResources := decQuantity (placingResources p1) delta,
                             readyResources := incQuantity (readyResources p1) delta\<rparr>)))"

section \<open>Predicates of the statements\<close>

text \<open>
  An offer is not indexed in a pool when its id is neither in \<open>timedOffers\<close> nor in
  the bag of the offer's host.
\<close>

definition notIndexed :: "offerPool \<Rightarrow> Offer \<Rightarrow> bool" where
  "notIndexed p offer \<longleftrightarrow>
     timedOffers p (OfferId offer) = None
     \<and> (case hostOfferIndex p (OfferHostname offer) of
          None \<Rightarrow> True
        | Some s \<Rightarrow> map_of (offers s) (OfferId offer) = None)"

text \<open>
  What one pass of the matcher over the hosts does to a host \<open>k\<close>: either its summary
  and its entry among the matched hosts are untouched, or the host was READY, is PLACING
  now, and is matched with its unreserved offers.
\<close>

definition hostStep ::
  "(string \<rightharpoonup> HostSummary) \<Rightarrow> Matcher \<Rightarrow> (string \<rightharpoonup> HostSummary) \<Rightarrow> Matcher \<Rightarrow> string \<Rightarrow> bool" where
  "hostStep index m index' m' k \<longleftrightarrow>
     (index' k = index k \<and> map_of (m_hostOffers m') k = map_of (m_hostOffers m) k)
     \<or> (\<exists>s. index k = Some s \<and> status s = ReadyOffer
            \<and> index' k = Some (s\<lparr>status := PlacingOffer\<rparr>)
            \<and> map_of (m_hostOffers m') k = Some (map snd (unreservedOffers s)))"

text \<open>A matcher that holds distinct hosts, no more than the filter admits.\<close>

definition bounded :: "Matcher \<Rightarrow> bool" where
  "bounded m \<longleftrightarrow> distinct (map fst (m_hostOffers m))
                \<and> length (m_hostOffers m) \<le> unat (MaxHosts (m_hostFilter m))"

text \<open>The componentwise sum of the scalar resources of a list of offers.\<close>

definition sumOffers :: "Offer list \<Rightarrow> Resources" where
  "sumOffers xs =
     \<lparr>CPU = (\<Sum>offer\<leftarrow>xs. CPU (FromOffer offer)),
      Mem = (\<Sum>offer\<leftarrow>xs. Mem (FromOffer offer)),
      Disk = (\<Sum>offer\<leftarrow>xs. Disk (FromOffer offer)),
      GPU = (\<Sum>offer\<leftarrow>xs. GPU (FromOffer offer)),
      Ports = (\<Sum>offer\<leftarrow>xs. Ports (FromOffer offer))\<rparr>"




text \<open>
  The offers of one \<open>AddOffers\<close> call keep every id on one host: an id that the pool
  tracks already comes with the hostname it is tracked under, and an id that comes twice
  comes with one hostname.
\<close>

definition sameHost :: "offerPool \<Rightarrow> Offer list \<Rightarrow> bool" where
  "sameHost p newOffers \<longleftrightarrow>
     (\<forall>offer \<in> set newOffers.
        (\<forall>t. timedOffers p (OfferId offer) = Some t \<longrightarrow> Hostname t = OfferHostname offer)
        \<and> (\<forall>other \<in> set newOffers.
              OfferId other = OfferId offer \<longrightarrow> OfferHostname other = OfferHostname offer))"


text \<open>
  The summary of host \<open>h\<close> without the offers whose (id, host) pair is in \<open>R\<close>; the
  offers that \<open>removeFromHosts\<close> finds on hosts of a given status; the (id, host) pairs
  of a list of timed offers.
\<close>

definition dropOffers :: "(string \<times> string) set \<Rightarrow> string \<Rightarrow> HostSummary \<Rightarrow> HostSummary" where
  "dropOffers R h s = s\<lparr>offers := filter (\<lambda>(oid, offer). (oid, h) \<notin> R) (offers s)\<rparr>"

definition removedOf :: "CacheStatus \<Rightarrow> offerPool \<Rightarrow> (string \<times> TimedOffer) list \<Rightarrow> Offer list" where
  "removedOf st p xs =
     List.map_filter
       (\<lambda>(oid, t). case hostOfferIndex p (Hostname t) of
                     None \<Rightarrow> None
                   | Some s \<Rightarrow> if status s = st then map_of (offers s) oid else None) xs"

definition hostPairs :: "(string \<times> TimedOffer) list \<Rightarrow> (string \<times> string) set" where
  "hostPairs xs = (\<lambda>x. (fst x, Hostname (snd x))) ` set xs"

text \<open>A list that visits every key of a Go map once, as a \<open>range\<close> loop does.\<close>

definition enumerates :: "string list \<Rightarrow> (string \<rightharpoonup> 'a) \<Rightarrow> bool" where
  "enumerates order m \<longleftrightarrow> distinct order \<and> set order = dom m"

text \<open>
  The pools that the six operations build from a new pool. \<open>AddOffers\<close> is given
  offers that keep every id on one host; the two loops over a map get an enumeration of
  its keys; an operation that ends in a nil dereference yields no pool.
\<close>

inductive reachable :: "offerPool \<Rightarrow> bool" where
  reach_new: "reachable (NewOfferPool holdTime)"
| reach_add: "reachable p \<Longrightarrow> sameHost p newOffers \<Longrightarrow> reachable (AddOffers now newOffers p)"
| reach_rescind: "reachable p \<Longrightarrow> reachable (snd (RescindOffer oID p))"
| reach_expire: "reachable p \<Longrightarrow> enumerates order (timedOffers p)
                 \<Longrightarrow> RemoveExpiredOffers now order p = Inr (removed, n, p') \<Longrightarrow> reachable p'"
| reach_place: "reachable p \<Longrightarrow> enumerates order (hostOfferIndex p)
                 \<Longrightarrow> ClaimForPlace evaluate order hostFilter p = Inr (ho, rc, p') \<Longrightarrow> reachable p'"
| reach_launch: "reachable p \<Longrightarrow> ClaimForLaunch hostname useReservedOffers p = Inr (offerMap, p')
                 \<Longrightarrow> reachable p'"
| reach_return: "reachable p \<Longrightarrow> reachable (snd (ReturnUnusedOffers hostname p))"

text \<open>
  The (id, host) pairs of the entries of \<open>timedOffers\<close> that have expired at \<open>now\<close>,
  and the expired entries in the order in which they are visited.
\<close>

definition expiredPairs :: "int \<Rightarrow> offerPool \<Rightarrow> (string \<times> string) set" where
  "expiredPairs now p =
     {(oid, Hostname t) | oid t. timedOffers p oid = Some t \<and> now > Expiration t}"

definition expiredList :: "int \<Rightarrow> string list \<Rightarrow> offerPool \<Rightarrow> (string \<times> TimedOffer) list" where
  "expiredList now order p =
     map (\<lambda>oid. (oid, the (timedOffers p oid))) (filter (expiredIn now (timedOffers p)) order)"

text \<open>
  Every expired entry of \<open>timedOffers\<close> names a host that has a summary;
  \<open>RemoveExpiredOffers\<close> dereferences nil otherwise.
\<close>

definition expiredHostsKnown :: "int \<Rightarrow> offerPool \<Rightarrow> bool" where
  "expiredHostsKnown now p \<longleftrightarrow>
     (\<forall>oid t. timedOffers p oid = Some t \<and> now > Expiration t
        \<longrightarrow> hostOfferIndex p (Hostname t) \<noteq> None)"

text \<open>The offers in the bags have non-negative scalar resources.\<close>

definition offersNonNegative :: "offerPool \<Rightarrow> bool" where
  "offersNonNegative p \<longleftrightarrow>
     (\<forall>h s. hostOfferIndex p h = Some s \<longrightarrow>
        (\<forall>offer \<in> snd ` set (offers s). NonNegative (FromOffer offer)))"

section \<open>The stateless job service handler\<close>

text \<open>
  The errors of the handler: a YARPC status error (\<open>yarpcerrors.UnavailableErrorf\<close>,
  \<open>InvalidArgumentErrorf\<close>, \<open>NotFoundErrorf\<close>, with the kinds of section 7 of the spec),
  an error wrapped by \<open>errors.Wrap\<close>, or any other error.
\<close>

datatype Code =
  CodeInvalidArgument | CodeNotFound | CodeFailedPrecondition | CodeAlreadyExists
  | CodeUnavailable | CodeResourceExhausted | CodeInternal

datatype handlerError = YARPCStatus Code string | Wrapped handlerError string | PlainError string

text \<open>
  Of the handler only the answer of \<open>h.candidate.IsLeader()\<close> is kept; the stores, the
  job cache and the goal-state driver are collaborators. Of a \<open>CreateJobRequest\<close> the
  job id is kept apart, because the handler inspects it.
\<close>

record serviceHandler =
  IsLeader :: bool

record 'spec CreateJobRequest =
  req_JobId :: string
  req_Spec :: 'spec

text \<open>
  \<open>CreateJob\<close> and \<open>RefreshJob\<close>. The deferred function replaces a returned error
  \<open>err\<close> by \<open>handlerutil.ConvertToYARPCError(err)\<close>; that function is not among the
  sources and is a parameter. \<open>uuidParse\<close> says whether \<open>uuid.Parse\<close> accepts a string,
  \<open>uuidNew\<close> is what \<open>uuid.New()\<close> returns. What \<open>CreateJob\<close> does with a valid job id
  (pool validation, config validation, secrets, job cache, goal-state driver) and what
  \<open>RefreshJob\<close> does as a leader (job store, job cache) is left to the parameters
  \<open>createValidJob\<close> and \<open>refreshFromStore\<close>: a call of a non-leader never gets there.
\<close>

definition CreateJob ::
  "(handlerError \<Rightarrow> handlerError) \<Rightarrow> (string \<Rightarrow> bool) \<Rightarrow> string
     \<Rightarrow> (string \<Rightarrow> 'spec CreateJobRequest \<Rightarrow> handlerError + 'resp)
     \<Rightarrow> serviceHandler \<Rightarrow> 'spec CreateJobRequest \<Rightarrow> handlerError + 'resp" where
  "CreateJob ConvertToYARPCError uuidParse uuidNew createValidJob h req =
     (let result =
        (if \<not> IsLeader h
         then Inl (YARPCStatus CodeUnavailable ''JobSVC.CreateJob is not supported on non-leader'')
         else
           let pelotonJobID = (if length (req_JobId req) = 0 then uuidNew else req_JobId req)
           in if \<not> uuidParse pelotonJobID
              then Inl (YARPCStatus CodeInvalidArgument ''jobID is not valid UUID'')
              else createValidJob pelotonJobID req)
      in (case result of
            Inl err \<Rightarrow> Inl (ConvertToYARPCError err)
          | Inr resp \<Rightarrow> Inr resp))"

definition RefreshJob ::
  "(handlerError \<Rightarrow> handlerError) \<Rightarrow> (string \<Rightarrow> handlerError + 'resp)
     \<Rightarrow> serviceHandler \<Rightarrow> string \<Rightarrow> handlerError + 'resp" where
  "RefreshJob ConvertToYARPCError refreshFromStore h jobId =
     (let result =
        (if \<not> IsLeader h
         then Inl (YARPCStatus CodeUnavailable ''JobSVC.RefreshJob is not supported on non-leader'')
         else refreshFromStore jobId)
      in (case result of
            Inl err \<Rightarrow> Inl (ConvertToYARPCError err)
          | Inr resp \<Rightarrow> Inr resp))"

text \<open>
  A conversion that returns a YARPC status error as it is, and the kind of the error that
  a handler call surfaces.
\<close>

definition keepsStatus :: "(handlerError \<Rightarrow> handlerError) \<Rightarrow> bool" where
  "keepsStatus convert \<longleftrightarrow> (\<forall>code message. convert (YARPCStatus code message) = YARPCStatus code message)"

definition errorCode :: "handlerError + 'resp \<Rightarrow> Code option" where
  "errorCode result =
     (case result of Inl (YARPCStatus code message) \<Rightarrow> Some code | _ \<Rightarrow> None)"

section \<open>The task tracker\<close>

text \<open>
  Modelled from the spec: the task tracker of the resource manager (\<open>MarkItDone\<close>, the
  task state machine, the allocation of a resource pool) is not among the sources; only
  its test suite is. Section 3 of the spec lists the task states. Of a tracked task the
  resource, the state and the pool it is accounted in are kept; of a pool its
  allocation, under the id of the pool.
\<close>

datatype TaskState =
  INITIALIZED | PENDING | READY | PLACING | PLACED | LAUNCHING | LAUNCHED | RUNNING
  | SUCCEEDED | FAILED | KILLED | LOST | PREEMPTING | RESERVED

record RMTask =
  task_resource :: Resources
  task_state :: TaskState
  task_respool :: string

record tracker =
  tasks :: "string \<rightharpoonup> RMTask"
  allocation :: "string \<Rightarrow> Resources"

text \<open>
  Modelled from the spec: section 4.5, \<open>MarkItDone\<close>: only if the state is one of READY,
  PLACING, PLACED, LAUNCHING, LAUNCHED, RUNNING, RESERVED does it
  \<open>SubtractFromAllocation\<close>; from INITIALIZED or PENDING it does not touch the
  allocation. Section 3: tasks die in \<open>MarkItDone\<close>, so the task leaves the tracker. A
  task id that the tracker does not know is an error. \<open>AddToAllocation\<close> and
  \<open>SubtractFromAllocation\<close> are the scalar \<open>Add\<close> and the saturating \<open>Subtract\<close> on the
  allocation of the pool.
\<close>

definition holdsAllocation :: "TaskState \<Rightarrow> bool" where
  "holdsAllocation st \<longleftrightarrow>
     st \<in> {READY, PLACING, PLACED, LAUNCHING, LAUNCHED, RUNNING, RESERVED}"

definition AddToAllocation :: "string \<Rightarrow> Resources \<Rightarrow> tracker \<Rightarrow> tracker" where
  "AddToAllocation pool res tr =
     tr\<lparr>allocation := (allocation tr)(pool := Add (allocation tr pool) res)\<rparr>"

definition SubtractFromAllocation :: "string \<Rightarrow> Resources \<Rightarrow> tracker \<Rightarrow> tracker" where
  "SubtractFromAllocation pool res tr =
     tr\<lparr>allocation := (allocation tr)(pool := Subtract (allocation tr pool) res)\<rparr>"

definition MarkItDone :: "string \<Rightarrow> tracker \<Rightarrow> error + tracker" where
  "MarkItDone tID tr =
     (case tasks tr tID of
        None \<Rightarrow> Inl (Error ''task is not in tracker'')
      | Some t \<Rightarrow>
          let tr1 = (if holdsAllocation (task_state t)
                     then SubtractFromAllocation (task_respool t) (task_resource t) tr
                     else tr)
          in Inr (tr1\<lparr>tasks := (tasks tr1)(tID := None)\<rparr>))"

text \<open>\<open>MarkItDone\<close> for one task id after the other; a refused call changes nothing.\<close>

definition markAll :: "string list \<Rightarrow> tracker \<Rightarrow> tracker" where
  "markAll ids tr =
     fold (\<lambda>tID tr'. case MarkItDone tID tr' of Inl err \<Rightarrow> tr' | Inr tr'' \<Rightarrow> tr'') ids tr"

section \<open>Task status updates\<close>

text \<open>
  Modelled from the spec: the status updater of the job manager
  (\<open>statusUpdate.ProcessStatusUpdate\<close>) is not among the sources; only its test suite is.
  Of a task the job id, the instance id, the runtime and \<open>max_failures\<close> of its restart
  policy are kept; of a Mesos task status the state, the reason and the message; of an
  \<open>EnqueueGangs\<close> request the pool and the task it enqueues. The counters are \<open>uint32\<close>.
\<close>

record RuntimeInfo =
  rt_State :: TaskState
  rt_GoalState :: TaskState
  rt_MesosTaskId :: string
  rt_Reason :: string
  rt_Message :: string
  rt_FailuresCount :: "32 word"

record TaskInfo =
  ti_JobId :: string
  ti_InstanceId :: "32 word"
  ti_Runtime :: RuntimeInfo
  ti_MaxFailures :: "32 word"

record TaskStatus =
  ts_State :: TaskState
  ts_Reason :: string
  ts_Message :: string

record EnqueueGangsRequest =
  eg_Respool :: string
  eg_JobId :: string
  eg_InstanceId :: "32 word"

text \<open>
  Modelled from the spec: section 4.5, failure retries: on FAILED with a retryable
  reason and \<open>failures_count < max_failures\<close> the task is re-enqueued as INITIALIZED in
  the same pool with a new mesos task id; otherwise the state of the event is final.
  The result is the task as \<open>UpdateTask\<close> stores it and the \<open>EnqueueGangs\<close> requests sent.
  Which reasons are retryable (\<open>retryable\<close>) and the new mesos task id are parameters;
  \<open>getJobRespool\<close> is the pool that the job's configuration names, \<open>None\<close> when the job
  store cannot be read. The three tests of the updater fix the rest: the reason and the
  message that are recorded and the incremented counter
  (\<open>TestProcessTaskFailedStatusUpdateWithRetry\<close>, \<open>...NoRetry\<close>), and that a failed
  \<open>GetJobConfig\<close> leaves the runtime rewritten and nothing enqueued
  (\<open>TestProcessTaskFailedRetryDBFailure\<close>).
\<close>

definition ProcessStatusUpdate ::
  "(string \<Rightarrow> bool) \<Rightarrow> string \<Rightarrow> (string \<Rightarrow> string option) \<Rightarrow> TaskStatus \<Rightarrow> TaskInfo
     \<Rightarrow> TaskInfo \<times> EnqueueGangsRequest list" where
  "ProcessStatusUpdate retryable newMesosTaskID getJobRespool event taskInfo =
     (let runtime = ti_Runtime taskInfo
      in if ts_State event = FAILED \<and> retryable (ts_Reason event)
            \<and> rt_FailuresCount runtime < ti_MaxFailures taskInfo
         then
           (taskInfo\<lparr>ti_Runtime := runtime
              \<lparr>rt_State := INITIALIZED,
               rt_MesosTaskId := newMesosTaskID,
               rt_Reason := ts_Reason event,
               rt_Message := ''Rescheduled due to task failure status: '' @ ts_Message event,
               rt_FailuresCount := rt_FailuresCount runtime + 1\<rparr>\<rparr>,
            case getJobRespool (ti_JobId taskInfo) of
              None \<Rightarrow> []
            | Some respool \<Rightarrow>
                [\<lparr>eg_Respool = respool, eg_JobId = ti_JobId taskInfo,
                  eg_InstanceId = ti_InstanceId taskInfo\<rparr>])
         else
           (taskInfo\<lparr>ti_Runtime := runtime
              \<lparr>rt_State := ts_State event,
               rt_Reason := ts_Reason event,
               rt_Message := ts_Message event\<rparr>\<rparr>, []))"

section \<open>Example states\<close>

text \<open>A pool that tracks an offer of a host for which it has no summary.\<close>

definition poolUnknownHost :: offerPool where
  "poolUnknownHost =
     \<lparr>hostOfferIndex = Map.empty, availableHosts = 0,
      timedOffers = [''offer1'' \<mapsto> \<lparr>Hostname = ''agent1'', Expiration = 100\<rparr>],
      offerHoldTime = 60, readyResources = ZeroResources, placingResources = ZeroResources\<rparr>"

text \<open>The offers of the pool tests: ten CPUs and twenty units of memory per host.\<close>

definition perHost :: Resources where
  "perHost = \<lparr>CPU = 10, Mem = 20, Disk = 0, GPU = 0, Ports = 0\<rparr>"

definition getMesosOffer :: "string \<Rightarrow> string \<Rightarrow> Offer" where
  "getMesosOffer hostName offerID =
     \<lparr>OfferId = offerID, OfferHostname = hostName, AgentId = hostName @ ''-1'',
      OfferScalar = perHost, OfferReserved = False\<rparr>"

definition offer1 :: Offer where "offer1 = getMesosOffer ''agent1'' ''offer1''"
definition offer2 :: Offer where "offer2 = getMesosOffer ''agent2'' ''offer2''"
definition offer3 :: Offer where "offer3 = getMesosOffer ''agent1'' ''offer3''"

text \<open>A pool with one READY host that holds \<open>offer1\<close>.\<close>

definition poolOneHost :: offerPool where
  "poolOneHost =
     \<lparr>hostOfferIndex = [''agent1'' \<mapsto> \<lparr>status = ReadyOffer, offers = [(''offer1'', offer1)]\<rparr>],
      availableHosts = 1,
      timedOffers = [''offer1'' \<mapsto> \<lparr>Hostname = ''agent1'', Expiration = 60\<rparr>],
      offerHoldTime = 60, readyResources = perHost, placingResources = ZeroResources\<rparr>"

text \<open>
  Two READY hosts as \<open>AddOffers\<close> leaves them, the same pool after \<open>agent1\<close> was
  claimed, a filter that asks for one host, and an evaluator that accepts every host.
\<close>

definition poolTwoHosts :: offerPool where
  "poolTwoHosts =
     \<lparr>hostOfferIndex = [''agent1'' \<mapsto> \<lparr>status = ReadyOffer, offers = [(''offer1'', offer1), (''offer3'', offer3)]\<rparr>,
                        ''agent2'' \<mapsto> \<lparr>status = ReadyOffer, offers = [(''offer2'', offer2)]\<rparr>],
      availableHosts = 2,
      timedOffers = [''offer1'' \<mapsto> \<lparr>Hostname = ''agent1'', Expiration = 60\<rparr>,
                     ''offer2'' \<mapsto> \<lparr>Hostname = ''agent2'', Expiration = 60\<rparr>,
                     ''offer3'' \<mapsto> \<lparr>Hostname = ''agent1'', Expiration = 60\<rparr>],
      offerHoldTime = 60,
      readyResources = \<lparr>CPU = 30, Mem = 60, Disk = 0, GPU = 0, Ports = 0\<rparr>,
      placingResources = ZeroResources\<rparr>"

definition matchAll :: Evaluator where
  "matchAll hostname s = MATCH"

definition oneHost :: HostFilter where
  "oneHost = \<lparr>Minimum = ZeroResources, MaxHosts = 1\<rparr>"

definition poolOnePlacing :: offerPool where
  "poolOnePlacing =
     poolTwoHosts\<lparr>hostOfferIndex := (hostOfferIndex poolTwoHosts)
         (''agent1'' \<mapsto> \<lparr>status = PlacingOffer, offers = [(''offer1'', offer1), (''offer3'', offer3)]\<rparr>),
        placingResources := \<lparr>CPU = 20, Mem = 40, Disk = 0, GPU = 0, Ports = 0\<rparr>,
        readyResources := \<lparr>CPU = 10, Mem = 20, Disk = 0, GPU = 0, Ports = 0\<rparr>\<rparr>"


text \<open>
  A reserved offer of \<open>agent1\<close>, and the pools around it: \<open>poolOneHost\<close> after its host
  was claimed; the pool that is left when the reserved offer is added while the host is
  PLACING, the host is returned and the reserved offer is rescinded; and that pool after
  its host was claimed again.
\<close>

definition reservedOffer :: Offer where
  "reservedOffer = (getMesosOffer ''agent1'' ''offer5'')\<lparr>OfferReserved := True\<rparr>"

definition poolOneClaimed :: offerPool where
  "poolOneClaimed =
     poolOneHost\<lparr>hostOfferIndex :=
                   [''agent1'' \<mapsto> \<lparr>status = PlacingOffer, offers = [(''offer1'', offer1)]\<rparr>],
                 placingResources := perHost, readyResources := ZeroResources\<rparr>"

definition poolDrift :: offerPool where
  "poolDrift = poolOneHost\<lparr>placingResources := perHost, readyResources := ZeroResources\<rparr>"

definition poolDriftClaimed :: offerPool where
  "poolDriftClaimed =
     poolOneClaimed\<lparr>placingResources := \<lparr>CPU = 20, Mem = 40, Disk = 0, GPU = 0, Ports = 0\<rparr>\<rparr>"

text \<open>
  The pool of \<open>TestRemoveExpiredOffers\<close> after the time stamps of \<open>offer1\<close> and
  \<open>offer4\<close> were moved two minutes into the past; the current instant is 0.
\<close>

definition offer4 :: Offer where "offer4 = getMesosOffer ''agent4'' ''offer4''"

definition poolExpiry :: offerPool where
  "poolExpiry =
     \<lparr>hostOfferIndex =
        [''agent1'' \<mapsto> \<lparr>status = ReadyOffer, offers = [(''offer1'', offer1), (''offer3'', offer3)]\<rparr>,
         ''agent2'' \<mapsto> \<lparr>status = ReadyOffer, offers = [(''offer2'', offer2)]\<rparr>,
         ''agent4'' \<mapsto> \<lparr>status = ReadyOffer, offers = [(''offer4'', offer4)]\<rparr>],
      availableHosts = 3,
      timedOffers = [''offer1'' \<mapsto> \<lparr>Hostname = ''agent1'', Expiration = - 120\<rparr>,
                     ''offer2'' \<mapsto> \<lparr>Hostname = ''agent2'', Expiration = 60\<rparr>,
                     ''offer3'' \<mapsto> \<lparr>Hostname = ''agent1'', Expiration = 60\<rparr>,
                     ''offer4'' \<mapsto> \<lparr>Hostname = ''agent4'', Expiration = - 120\<rparr>],
      offerHoldTime = 60,
      readyResources = \<lparr>CPU = 40, Mem = 80, Disk = 0, GPU = 0, Ports = 0\<rparr>,
      placingResources = ZeroResources\<rparr>"

text \<open>A handler on an instance that is not the leader, and a request without a job id.\<close>

definition nonLeader :: serviceHandler where
  "nonLeader = \<lparr>IsLeader = False\<rparr>"

definition someRequest :: "unit CreateJobRequest" where
  "someRequest = \<lparr>req_JobId = '''', req_Spec = ()\<rparr>"

text \<open>
  Three of the tasks of \<open>TestMarkItDone\<close>: one INITIALIZED, one PENDING, one READY,
  each in a pool of its own whose allocation is the resource of the task.
\<close>

definition taskResources :: Resources where
  "taskResources = \<lparr>CPU = 1, Mem = 100, Disk = 10, GPU = 0, Ports = 0\<rparr>"

definition trackerTest :: tracker where
  "trackerTest =
     \<lparr>tasks =
        [''job1-1'' \<mapsto> \<lparr>task_resource = taskResources, task_state = INITIALIZED,
                          task_respool = ''respool-1''\<rparr>,
         ''job1-2'' \<mapsto> \<lparr>task_resource = taskResources, task_state = PENDING,
                          task_respool = ''respool-2''\<rparr>,
         ''job1-3'' \<mapsto> \<lparr>task_resource = taskResources, task_state = READY,
                          task_respool = ''respool-3''\<rparr>],
      allocation = (\<lambda>pool. taskResources)\<rparr>"

text \<open>
  The status event of the updater's tests, the running task with three allowed failures
  and the task without a restart policy.
\<close>

definition containerLaunchFailed :: TaskStatus where
  "containerLaunchFailed =
     \<lparr>ts_State = FAILED, ts_Reason = ''REASON_CONTAINER_LAUNCH_FAILED'', ts_Message = ''testFailure''\<rparr>"

definition runningTask :: TaskInfo where
  "runningTask =
     \<lparr>ti_JobId = ''job'', ti_InstanceId = 0,
      ti_Runtime = \<lparr>rt_State = RUNNING, rt_GoalState = SUCCEEDED, rt_MesosTaskId = ''job-0-uuid'',
                    rt_Reason = '''', rt_Message = '''', rt_FailuresCount = 0\<rparr>,
      ti_MaxFailures = 3\<rparr>"

definition noRetryTask :: TaskInfo where
  "noRetryTask =
     \<lparr>ti_JobId = ''job'', ti_InstanceId = 0,
      ti_Runtime = \<lparr>rt_State = INITIALIZED, rt_GoalState = SUCCEEDED, rt_MesosTaskId = ''job-0-uuid'',
                    rt_Reason = '''', rt_Message = '''', rt_FailuresCount = 0\<rparr>,
      ti_MaxFailures = 0\<rparr>"

section \<open>Scalar arithmetic\<close>

lemma sat_sub_add: "0 \<le> a \<Longrightarrow> sat_sub (a + b) b = a"
  by (simp add: sat_sub_def)

lemma Subtract_Add: "NonNegative a \<Longrightarrow> Subtract (Add a b) b = a"
  by (simp add: NonNegative_def Contains_def ZeroResources_def Subtract_def Add_def sat_sub_add)

lemma NonNegative_Zero: "NonNegative ZeroResources"
  by (simp add: NonNegative_def Contains_def)

lemma NonNegative_perHost: "NonNegative perHost"
  by (simp add: NonNegative_def Contains_def perHost_def ZeroResources_def)

lemma Add_Zero: "Add a ZeroResources = a"
  by (simp add: Add_def ZeroResources_def)

lemma Add_assoc: "Add (Add a b) c = Add a (Add b c)"
  by (simp add: Add_def)

lemma sumOffers_Nil: "sumOffers [] = ZeroResources"
  by (simp add: sumOffers_def ZeroResources_def)

lemma sumOffers_Cons: "sumOffers (x # xs) = Add (FromOffer x) (sumOffers xs)"
  by (simp add: sumOffers_def Add_def)

lemma sumOffers_append: "sumOffers (xs @ ys) = Add (sumOffers xs) (sumOffers ys)"
  by (simp add: sumOffers_def Add_def)

lemma fold_Add_offers:
  "fold (\<lambda>offer d. Add d (FromOffer offer)) xs d0 = Add d0 (sumOffers xs)"
  by (induction xs arbitrary: d0) (simp_all add: sumOffers_Nil sumOffers_Cons Add_Zero Add_assoc)

lemma fold_hosts_offers:
  "fold (\<lambda>(hostname, matched) delta. fold (\<lambda>offer d. Add d (FromOffer offer)) matched delta) ho d0
   = Add d0 (sumOffers (concat (map snd ho)))"
  by (induction ho arbitrary: d0)
     (simp_all add: sumOffers_Nil Add_Zero fold_Add_offers sumOffers_append Add_assoc split: prod.splits)

lemma Zero_Add: "Add ZeroResources a = a"
  by (simp add: Add_def ZeroResources_def)

lemma offersDelta_sum: "offersDelta ho = sumOffers (concat (map snd ho))"
  by (simp add: offersDelta_def fold_hosts_offers Zero_Add)

lemma FromOfferMap_sum: "FromOfferMap om = sumOffers (map snd om)"
proof -
  have "fold (\<lambda>(id, offer) acc. Add acc (FromOffer offer)) om d0 = Add d0 (sumOffers (map snd om))" for d0
    by (induction om arbitrary: d0)
       (simp_all add: sumOffers_Nil Add_Zero sumOffers_Cons Add_assoc split: prod.splits)
  then show ?thesis by (simp add: FromOfferMap_def Zero_Add)
qed

lemma sat_sub_add2: "y \<le> x \<Longrightarrow> sat_sub x y + y = x"
  by (simp add: sat_sub_def)

lemma Add_Subtract: "Contains a b \<Longrightarrow> Add (Subtract a b) b = a"
  by (simp add: Contains_def Subtract_def Add_def sat_sub_add2)

lemma Add_Subtract_iff: "Add (Subtract a b) b = a \<longleftrightarrow> Contains a b"
proof
  assume e: "Add (Subtract a b) b = a"
  have "CPU (Add (Subtract a b) b) = CPU a" "Mem (Add (Subtract a b) b) = Mem a"
    "Disk (Add (Subtract a b) b) = Disk a" "GPU (Add (Subtract a b) b) = GPU a"
    "Ports (Add (Subtract a b) b) = Ports a"
    by (simp_all add: e)
  then show "Contains a b"
    by (simp add: Add_def Subtract_def Contains_def sat_sub_def split: if_splits)
next
  assume "Contains a b"
  then show "Add (Subtract a b) b = a" by (rule Add_Subtract)
qed

lemma Subtract_Zero: "Contains a ZeroResources \<Longrightarrow> Subtract a ZeroResources = a"
  by (simp add: Contains_def Subtract_def ZeroResources_def sat_sub_def)

section \<open>Adding one offer\<close>

lemma delete_update_fresh:
  "map_of al k = None \<Longrightarrow> AList.delete k (AList.update k v al) = al"
  by (simp add: delete_update_same map_of_eq_None_iff)

lemma addOne_known:
  assumes "hostOfferIndex p (OfferHostname offer) = Some s"
  shows "addOne e offer p =
         incByStatus (status s) (FromOffer offer)
           (p\<lparr>availableHosts := (if HasAnyOffer s then availableHosts p else availableHosts p + 1),
              hostOfferIndex := (hostOfferIndex p)(OfferHostname offer \<mapsto>
                 s\<lparr>offers := AList.update (OfferId offer) offer (offers s)\<rparr>)\<rparr>)"
  using assms by (simp add: addOne_def tryAddOffer_def AddMesosOffer_def Let_def)

lemma addOne_unknown:
  assumes "hostOfferIndex p (OfferHostname offer) = None"
  shows "addOne e offer p =
           (p\<lparr>availableHosts := availableHosts p + 1,
              hostOfferIndex := (hostOfferIndex p)(OfferHostname offer \<mapsto>
                 New\<lparr>offers := [(OfferId offer, offer)]\<rparr>),
              readyResources := Add (readyResources p) (FromOffer offer)\<rparr>)"
  using assms by (simp add: addOne_def tryAddOffer_def addOffer_def AddMesosOffer_def Let_def
      New_def HasAnyOffer_def incByStatus_def incQuantity_def)

section \<open>Adding an offer and rescinding it\<close>

text \<open>
  Claim C4, as the spec states it: for every pool and every offer that is not indexed,
  \<open>AddOffers([o]); RescindOffer(o.id)\<close> leaves the pool as it was. It fails for an
  offer of a host that the pool has no summary for: \<open>addOffer\<close> creates the summary
  and \<open>RescindOffer\<close> does not remove it again. In the empty pool the host index has
  gained an entry after the round trip.
\<close>

theorem AddOffers_RescindOffer_new_host:
  "notIndexed (NewOfferPool 60) offer1
   \<and> fst (RescindOffer (OfferId offer1) (AddOffers 0 [offer1] (NewOfferPool 60))) = True
   \<and> hostOfferIndex (NewOfferPool 60) ''agent1'' = None
   \<and> hostOfferIndex (snd (RescindOffer (OfferId offer1) (AddOffers 0 [offer1] (NewOfferPool 60))))
         ''agent1'' = Some New"
  by (simp add: notIndexed_def NewOfferPool_def offer1_def getMesosOffer_def AddOffers_def
      addOne_unknown setTimed_def RescindOffer_def RemoveMesosOffer_def New_def HasAnyOffer_def
      decByStatus_def Let_def)

text \<open>
  Claim C4, amended: for every pool whose two buckets are non-negative and every offer
  that is not indexed, \<open>AddOffers([o]); RescindOffer(o.id)\<close> returns true from the
  rescind; it leaves the pool (both indices, both buckets and the host counter) as it
  was when the offer's host had a summary, and otherwise leaves the pool as it was
  plus an empty READY summary for the offer's host.
\<close>

theorem AddOffers_RescindOffer:
  assumes "notIndexed p offer"
    and "NonNegative (readyResources p)" and "NonNegative (placingResources p)"
  shows "RescindOffer (OfferId offer) (AddOffers now [offer] p) =
         (True, case hostOfferIndex p (OfferHostname offer) of
                  None \<Rightarrow> p\<lparr>hostOfferIndex := (hostOfferIndex p)(OfferHostname offer \<mapsto> New)\<rparr>
                | Some s \<Rightarrow> p)"
proof (cases "hostOfferIndex p (OfferHostname offer)")
  case None
  then show ?thesis
    using assms
    by (simp add: AddOffers_def addOne_unknown setTimed_def RescindOffer_def
      RemoveMesosOffer_def New_def HasAnyOffer_def decByStatus_def decQuantity_def Subtract_Add
      notIndexed_def fun_upd_idem)
next
  case (Some s)
  have t: "timedOffers p (OfferId offer) = None" and b: "map_of (offers s) (OfferId offer) = None"
    using assms(1) Some by (simp_all add: notIndexed_def)
  show ?thesis
    using assms(2,3) Some t b
    by (cases "status s")
       (simp_all add: AddOffers_def addOne_known setTimed_def RescindOffer_def
          RemoveMesosOffer_def HasAnyOffer_def delete_update_fresh fun_upd_idem Let_def
          incByStatus_def decByStatus_def incQuantity_def decQuantity_def Subtract_Add
          update_conv' map_upd_triv)
qed

theorem AddOffers_RescindOffer_witness:
  "notIndexed poolOneHost offer3
   \<and> NonNegative (readyResources poolOneHost)
   \<and> NonNegative (placingResources poolOneHost)
   \<and> RescindOffer (OfferId offer3) (AddOffers 0 [offer3] poolOneHost) = (True, poolOneHost)"
proof -
  have n: "notIndexed poolOneHost offer3"
    by (simp add: notIndexed_def poolOneHost_def offer3_def getMesosOffer_def)
  have r: "NonNegative (readyResources poolOneHost)"
    by (simp add: poolOneHost_def NonNegative_perHost)
  have q: "NonNegative (placingResources poolOneHost)"
    by (simp add: poolOneHost_def NonNegative_Zero)
  have h: "hostOfferIndex poolOneHost (OfferHostname offer3)
           = Some \<lparr>status = ReadyOffer, offers = [(''offer1'', offer1)]\<rparr>"
    by (simp add: poolOneHost_def offer3_def getMesosOffer_def)
  have "RescindOffer (OfferId offer3) (AddOffers 0 [offer3] poolOneHost) = (True, poolOneHost)"
    using AddOffers_RescindOffer [OF n r q, of 0] by (simp add: h)
  with n r q show ?thesis by blast
qed

section \<open>The matcher's pass over the hosts\<close>

lemma tryMatch_cases:
  assumes "tryMatch evaluate h s m = (m', s')"
  shows "m_hostFilter m' = m_hostFilter m
       \<and> ((s' = s \<and> m_hostOffers m' = m_hostOffers m)
          \<or> (\<not> HasEnoughHosts m \<and> status s = ReadyOffer \<and> s' = s\<lparr>status := PlacingOffer\<rparr>
              \<and> m_hostOffers m' = AList.update h (map snd (unreservedOffers s)) (m_hostOffers m)))"
  using assms
  by (auto simp: tryMatch_def TryMatch_def countResult_def Let_def
      split: if_splits HostFilterResult.splits)

lemma hostStep_refl: "hostStep index m index m k"
  by (simp add: hostStep_def)

lemma hostStep_tryMatch:
  assumes "tryMatch evaluate h s m = (m', s')" and "index h = Some s"
  shows "hostStep index m (index(h \<mapsto> s')) m' k"
  using tryMatch_cases [OF assms(1)] assms(2)
  by (auto simp: hostStep_def update_conv')

lemma hostStep_trans:
  assumes "hostStep index m index1 m1 k" and "hostStep index1 m1 index' m' k"
  shows "hostStep index m index' m' k"
proof -
  from assms(1) consider
      (same) "index1 k = index k" "map_of (m_hostOffers m1) k = map_of (m_hostOffers m) k"
    | (matched) s where "index k = Some s" "status s = ReadyOffer"
        "index1 k = Some (s\<lparr>status := PlacingOffer\<rparr>)"
        "map_of (m_hostOffers m1) k = Some (map snd (unreservedOffers s))"
    unfolding hostStep_def by blast
  then show ?thesis
  proof cases
    case same
    with assms(2) show ?thesis unfolding hostStep_def by simp
  next
    case matched
    from assms(2) matched(3) have "index' k = index1 k"
      and "map_of (m_hostOffers m') k = map_of (m_hostOffers m1) k"
      unfolding hostStep_def by auto
    with matched show ?thesis unfolding hostStep_def by simp
  qed
qed

lemma matchHosts_hostStep:
  "matchHosts evaluate order index m = (index', m') \<Longrightarrow>
     m_hostFilter m' = m_hostFilter m \<and> (\<forall>k. hostStep index m index' m' k)"
proof (induction evaluate order index m rule: matchHosts.induct)
  case (1 evaluate index m)
  then show ?case by (simp add: hostStep_refl)
next
  case (2 evaluate hostname rest index m)
  show ?case
  proof (cases "index hostname")
    case None
    with 2 show ?thesis by simp
  next
    case (Some s)
    obtain m1 s1 where t: "tryMatch evaluate hostname s m = (m1, s1)"
      by (cases "tryMatch evaluate hostname s m") 
    note c = tryMatch_cases [OF t]
    have st: "hostStep index m (index(hostname \<mapsto> s1)) m1 k" for k
      using t Some by (rule hostStep_tryMatch)
    show ?thesis
    proof (cases "HasEnoughHosts m1")
      case True
      with 2(3) Some t have e: "index' = index(hostname \<mapsto> s1)" "m' = m1" by simp_all
      from c have "m_hostFilter m1 = m_hostFilter m" by blast
      with st show ?thesis unfolding e by blast
    next
      case False
      with 2(3) Some t have r: "matchHosts evaluate rest (index(hostname \<mapsto> s1)) m1 = (index', m')"
        by simp
      have ih: "m_hostFilter m' = m_hostFilter m1
                \<and> (\<forall>k. hostStep (index(hostname \<mapsto> s1)) m1 index' m' k)"
        using 2(2) [OF Some refl t [symmetric] refl False r] .
      from c have "m_hostFilter m1 = m_hostFilter m" by blast
      with ih st show ?thesis by (metis hostStep_trans)
    qed
  qed
qed

lemma length_update_le: "length (AList.update k v al) \<le> Suc (length al)"
  by (induction al) auto

lemma not_enough_less:
  assumes "\<not> HasEnoughHosts m" and "length (m_hostOffers m) \<le> unat (MaxHosts (m_hostFilter m))"
  shows "length (m_hostOffers m) < unat (MaxHosts (m_hostFilter m))"
proof -
  have "unat (MaxHosts (m_hostFilter m)) < 2 ^ 32"
    using unsigned_less [of "MaxHosts (m_hostFilter m)", where ?'a = nat] by simp
  with assms(2) have "length (m_hostOffers m) < 2 ^ 32" by simp
  then have u: "unat (word_of_nat (length (m_hostOffers m)) :: 32 word) = length (m_hostOffers m)"
    by (simp add: unat_of_nat)
  from assms(1) have "(word_of_nat (length (m_hostOffers m)) :: 32 word) < MaxHosts (m_hostFilter m)"
    by (simp add: HasEnoughHosts_def not_le)
  then show ?thesis using u by (simp add: word_less_nat_alt)
qed

lemma tryMatch_bounded:
  assumes "tryMatch evaluate h s m = (m', s')" and "bounded m"
  shows "bounded m'"
proof -
  from tryMatch_cases [OF assms(1)] consider
      (same) "m_hostFilter m' = m_hostFilter m" "m_hostOffers m' = m_hostOffers m"
    | (matched) "m_hostFilter m' = m_hostFilter m" "\<not> HasEnoughHosts m"
        "m_hostOffers m' = AList.update h (map snd (unreservedOffers s)) (m_hostOffers m)"
    by blast
  then show ?thesis
  proof cases
    case same
    with assms(2) show ?thesis by (simp add: bounded_def)
  next
    case matched
    from assms(2) have "length (m_hostOffers m) \<le> unat (MaxHosts (m_hostFilter m))"
      by (simp add: bounded_def)
    from not_enough_less [OF matched(2) this] length_update_le [of h "map snd (unreservedOffers s)" "m_hostOffers m"]
    have "length (m_hostOffers m') \<le> unat (MaxHosts (m_hostFilter m'))"
      unfolding matched by simp
    moreover have "distinct (map fst (m_hostOffers m'))"
      using assms(2) unfolding matched by (simp add: bounded_def distinct_update)
    ultimately show ?thesis by (simp add: bounded_def)
  qed
qed

lemma matchHosts_bounded:
  "matchHosts evaluate order index m = (index', m') \<Longrightarrow> bounded m \<Longrightarrow> bounded m'"
proof (induction evaluate order index m rule: matchHosts.induct)
  case (1 evaluate index m)
  then show ?case by simp
next
  case (2 evaluate hostname rest index m)
  show ?case
  proof (cases "index hostname")
    case None
    with 2 show ?thesis by simp
  next
    case (Some s)
    obtain m1 s1 where t: "tryMatch evaluate hostname s m = (m1, s1)"
      by (cases "tryMatch evaluate hostname s m")
    have b1: "bounded m1" using t 2(4) by (rule tryMatch_bounded)
    show ?thesis
    proof (cases "HasEnoughHosts m1")
      case True
      with 2(3) Some t have "m' = m1" by simp
      with b1 show ?thesis by simp
    next
      case False
      with 2(3) Some t have r: "matchHosts evaluate rest (index(hostname \<mapsto> s1)) m1 = (index', m')"
        by simp
      show ?thesis using 2(2) [OF Some refl t [symmetric] refl False r b1] .
    qed
  qed
qed

lemma bounded_NewMatcher: "bounded (NewMatcher f)"
  by (simp add: bounded_def NewMatcher_def)

lemma ClaimForPlace_unfold:
  assumes "ClaimForPlace evaluate order hostFilter p = Inr (ho, rc, p')"
  obtains f index m where "hostFilter = Some f"
    and "matchHosts evaluate order (hostOfferIndex p) (NewMatcher f) = (index, m)"
    and "ho = m_hostOffers m" and "rc = m_resultCounts m"
    and "hostOfferIndex p' = index"
    and "p' = (if length ho > 0
               then p\<lparr>hostOfferIndex := index,
                      placingResources := incQuantity (placingResources p) (offersDelta ho),
                      readyResources := decQuantity (readyResources p) (offersDelta ho)\<rparr>
               else p\<lparr>hostOfferIndex := index\<rparr>)"
proof (cases hostFilter)
  case None
  with assms show ?thesis by (simp add: ClaimForPlace_def)
next
  case (Some f)
  obtain index m where mh: "matchHosts evaluate order (hostOfferIndex p) (NewMatcher f) = (index, m)"
    by (cases "matchHosts evaluate order (hostOfferIndex p) (NewMatcher f)")
  from assms Some mh have "ho = m_hostOffers m" "rc = m_resultCounts m"
    "p' = (if length ho > 0
               then p\<lparr>hostOfferIndex := index,
                      placingResources := incQuantity (placingResources p) (offersDelta ho),
                      readyResources := decQuantity (readyResources p) (offersDelta ho)\<rparr>
               else p\<lparr>hostOfferIndex := index\<rparr>)"
    by (auto simp: ClaimForPlace_def getHostOffers_def Let_def split: if_splits)
  moreover from this have "hostOfferIndex p' = index" by (simp split: if_splits)
  ultimately show ?thesis using that Some mh by blast
qed

lemma ClaimForPlace_hosts:
  assumes "ClaimForPlace evaluate order hostFilter p = Inr (ho, rc, p')"
    and "h \<in> fst ` set ho"
  shows "\<exists>s. hostOfferIndex p h = Some s \<and> status s = ReadyOffer
           \<and> hostOfferIndex p' h = Some (s\<lparr>status := PlacingOffer\<rparr>)
           \<and> map_of ho h = Some (map snd (unreservedOffers s))"
proof -
  from assms(1) obtain f index m where
    mh: "matchHosts evaluate order (hostOfferIndex p) (NewMatcher f) = (index, m)"
    and ho: "ho = m_hostOffers m" and ix: "hostOfferIndex p' = index"
    by (rule ClaimForPlace_unfold)
  from matchHosts_hostStep [OF mh] have "hostStep (hostOfferIndex p) (NewMatcher f) index m h"
    by blast
  moreover from assms(2) have "map_of (m_hostOffers m) h \<noteq> None"
    unfolding ho by (simp add: map_of_eq_None_iff)
  ultimately show ?thesis
    unfolding hostStep_def ho ix by (auto simp: NewMatcher_def)
qed

text \<open>
  With a filter, \<open>ClaimForPlace\<close> returns a result: the pass over the hosts is a
  recursion on the finite enumeration of the index.
\<close>

lemma ClaimForPlace_returns:
  "\<exists>ho rc p'. ClaimForPlace evaluate order (Some f) p = Inr (ho, rc, p')"
  by (simp add: ClaimForPlace_def Let_def split: prod.splits)

text \<open>
  Claiming one host and returning its offers gives back the pool: the summary is READY
  again and both buckets hold what they held before, when the placing bucket was not
  negative and the ready bucket held the offers of the host.
\<close>

lemma ClaimForPlace_ReturnUnusedOffers:
  assumes "ClaimForPlace evaluate order hostFilter p = Inr ([(h, matched)], rc, p')"
    and "NonNegative (placingResources p)"
    and "Contains (readyResources p) (offersDelta [(h, matched)])"
  shows "ReturnUnusedOffers h p' = (None, p)"
proof -
  let ?ho = "[(h, matched)]"
  from assms(1) obtain f index m where
    mh: "matchHosts evaluate order (hostOfferIndex p) (NewMatcher f) = (index, m)"
    and ho: "?ho = m_hostOffers m"
    and p': "p' = (if length ?ho > 0
               then p\<lparr>hostOfferIndex := index,
                      placingResources := incQuantity (placingResources p) (offersDelta ?ho),
                      readyResources := decQuantity (readyResources p) (offersDelta ?ho)\<rparr>
               else p\<lparr>hostOfferIndex := index\<rparr>)"
    by (rule ClaimForPlace_unfold)
  have "h \<in> fst ` set ?ho" by simp
  from ClaimForPlace_hosts [OF assms(1) this] obtain s where
    s: "hostOfferIndex p h = Some s" and r: "status s = ReadyOffer"
    and s': "hostOfferIndex p' h = Some (s\<lparr>status := PlacingOffer\<rparr>)"
    and mt: "matched = map snd (unreservedOffers s)"
    by auto
  have other: "index k = hostOfferIndex p k" if "k \<noteq> h" for k
  proof -
    from matchHosts_hostStep [OF mh] have "hostStep (hostOfferIndex p) (NewMatcher f) index m k"
      by blast
    moreover have "map_of (m_hostOffers m) k = None" using that ho [symmetric] by simp
    ultimately show ?thesis unfolding hostStep_def by auto
  qed
  have ix: "hostOfferIndex p' = index" using p' by (simp split: if_splits)
  have index: "index = (hostOfferIndex p)(h \<mapsto> s\<lparr>status := PlacingOffer\<rparr>)"
  proof (rule ext)
    fix k show "index k = ((hostOfferIndex p)(h \<mapsto> s\<lparr>status := PlacingOffer\<rparr>)) k"
      using other [of k] s' ix by (cases "k = h") simp_all
  qed
  have d: "offersDelta ?ho = UnreservedAmount s"
    by (simp add: offersDelta_sum UnreservedAmount_def FromOfferMap_sum mt)
  have rdy: "s\<lparr>status := ReadyOffer\<rparr> = s" using r by simp
  have u: "UnreservedAmount (s\<lparr>status := PlacingOffer, status := ReadyOffer\<rparr>) = UnreservedAmount s"
    by (simp add: UnreservedAmount_def unreservedOffers_def)
  have p'': "p' = p\<lparr>hostOfferIndex := (hostOfferIndex p)(h \<mapsto> s\<lparr>status := PlacingOffer\<rparr>),
                    placingResources := Add (placingResources p) (UnreservedAmount s),
                    readyResources := Subtract (readyResources p) (UnreservedAmount s)\<rparr>"
    using p' by (simp add: index d incQuantity_def decQuantity_def)
  show ?thesis
    unfolding p''
    using s assms(2) assms(3) [unfolded d]
    by (simp add: ReturnUnusedOffers_def CasStatus_def Let_def u rdy decQuantity_def incQuantity_def
        Subtract_Add Add_Subtract map_upd_triv)
qed

section \<open>The example pools\<close>


lemma claim_first:
  "ClaimForPlace matchAll [''agent1'', ''agent2''] (Some oneHost) poolTwoHosts
   = Inr ([(''agent1'', [offer1, offer3])], [MATCH \<mapsto> 1], poolOnePlacing)"
  by (simp add: ClaimForPlace_def NewMatcher_def tryMatch_def TryMatch_def HasEnoughHosts_def
      countResult_def getHostOffers_def offersDelta_def matchAll_def oneHost_def poolTwoHosts_def
      poolOnePlacing_def UnreservedAmount_def unreservedOffers_def FromOfferMap_def FromOffer_def
      Contains_def Add_def Subtract_def sat_sub_def ZeroResources_def incQuantity_def decQuantity_def
      offer1_def offer2_def offer3_def getMesosOffer_def perHost_def Let_def)



text \<open>
  The pool with the reserved offer: it is reached from a new pool by \<open>AddOffers\<close>,
  \<open>ClaimForPlace\<close>, \<open>AddOffers\<close> of the reserved offer, \<open>ReturnUnusedOffers\<close> and
  \<open>RescindOffer\<close>. The reserved offer is added to the placing bucket, is not part of
  the unreserved amount that the return moves back, and is taken out of the ready
  bucket when it is rescinded.
\<close>

lemma poolOneHost_AddOffers: "AddOffers 0 [offer1] (NewOfferPool 60) = poolOneHost"
  by (simp add: AddOffers_def addOne_def tryAddOffer_def addOffer_def setTimed_def NewOfferPool_def
      poolOneHost_def offer1_def getMesosOffer_def AddMesosOffer_def New_def FromOffer_def
      HasAnyOffer_def incByStatus_def incQuantity_def Add_def ZeroResources_def perHost_def Let_def)

lemma claim_one:
  "ClaimForPlace matchAll [''agent1''] (Some oneHost) poolOneHost
   = Inr ([(''agent1'', [offer1])], [MATCH \<mapsto> 1], poolOneClaimed)"
  by (simp add: ClaimForPlace_def NewMatcher_def tryMatch_def TryMatch_def HasEnoughHosts_def
      countResult_def getHostOffers_def offersDelta_def matchAll_def oneHost_def poolOneHost_def
      poolOneClaimed_def UnreservedAmount_def unreservedOffers_def FromOfferMap_def FromOffer_def
      Contains_def Add_def Subtract_def sat_sub_def ZeroResources_def incQuantity_def decQuantity_def
      offer1_def getMesosOffer_def perHost_def Let_def)

lemma drift_steps:
  "snd (RescindOffer ''offer5''
     (snd (ReturnUnusedOffers ''agent1'' (AddOffers 0 [reservedOffer] poolOneClaimed)))) = poolDrift"
  apply (simp add: AddOffers_def addOne_def tryAddOffer_def addOffer_def setTimed_def
      ReturnUnusedOffers_def CasStatus_def RescindOffer_def RemoveMesosOffer_def decByStatus_def
      poolOneHost_def poolOneClaimed_def poolDrift_def reservedOffer_def
      offer1_def getMesosOffer_def AddMesosOffer_def New_def UnreservedAmount_def unreservedOffers_def
      FromOfferMap_def FromOffer_def Subtract_def sat_sub_def decQuantity_def
      HasAnyOffer_def incByStatus_def incQuantity_def Add_def ZeroResources_def perHost_def Let_def)
  done

lemma sameHost_reserved: "sameHost poolOneClaimed [reservedOffer]"
  by (simp add: sameHost_def poolOneClaimed_def poolOneHost_def reservedOffer_def getMesosOffer_def)

lemma enumerates_one: "enumerates [''agent1''] (hostOfferIndex poolOneHost)"
  by (simp add: enumerates_def poolOneHost_def)

lemma reachable_poolDrift: "reachable poolDrift"
proof -
  have s: "sameHost (NewOfferPool 60) [offer1]"
    by (simp add: sameHost_def NewOfferPool_def offer1_def getMesosOffer_def)
  have 1: "reachable poolOneHost"
    using reach_add [OF reach_new s, of 0] by (simp add: poolOneHost_AddOffers)
  have 2: "reachable poolOneClaimed"
    by (rule reach_place [OF 1 enumerates_one claim_one])
  have 3: "reachable (AddOffers 0 [reservedOffer] poolOneClaimed)"
    by (rule reach_add [OF 2 sameHost_reserved])
  have "reachable (snd (RescindOffer ''offer5''
     (snd (ReturnUnusedOffers ''agent1'' (AddOffers 0 [reservedOffer] poolOneClaimed)))))"
    by (rule reach_rescind [OF reach_return [OF 3]])
  then show ?thesis
    by (simp only: drift_steps)
qed

section \<open>No host is claimed twice\<close>



section \<open>How many hosts are claimed, and what is moved between the buckets\<close>

text \<open>
  Claim C2, as the spec states it: every \<open>ClaimForPlace\<close> call decreases
  \<open>ready_resources\<close> by exactly the componentwise sum of the scalar resources of the
  returned offers. It fails in a pool that the operations reach: after a reserved offer
  was added to \<open>agent1\<close> while it was PLACING, the host was returned and the reserved
  offer was rescinded, the ready bucket is zero while \<open>agent1\<close> is READY with
  \<open>offer1\<close>. \<open>ClaimForPlace\<close> returns \<open>agent1\<close> with ten CPUs, and the ready bucket,
  from which the saturating \<open>Subtract\<close> can take nothing, stays zero.
\<close>

theorem ClaimForPlace_ready_saturates:
  "reachable poolDrift
   \<and> ClaimForPlace matchAll [''agent1''] (Some oneHost) poolDrift
       = Inr ([(''agent1'', [offer1])], [MATCH \<mapsto> 1], poolDriftClaimed)
   \<and> offersDelta [(''agent1'', [offer1])] = perHost
   \<and> readyResources poolDrift = ZeroResources
   \<and> readyResources poolDriftClaimed = ZeroResources
   \<and> Add (readyResources poolDriftClaimed) (offersDelta [(''agent1'', [offer1])])
       \<noteq> readyResources poolDrift"
proof -
  have c: "ClaimForPlace matchAll [''agent1''] (Some oneHost) poolDrift
       = Inr ([(''agent1'', [offer1])], [MATCH \<mapsto> 1], poolDriftClaimed)"
    by (simp add: ClaimForPlace_def NewMatcher_def tryMatch_def TryMatch_def HasEnoughHosts_def
      countResult_def getHostOffers_def offersDelta_def matchAll_def oneHost_def poolOneHost_def
      poolOneClaimed_def poolDrift_def poolDriftClaimed_def
      UnreservedAmount_def unreservedOffers_def FromOfferMap_def FromOffer_def
      Contains_def Add_def Subtract_def sat_sub_def ZeroResources_def incQuantity_def decQuantity_def
      offer1_def getMesosOffer_def perHost_def Let_def)
  have d: "offersDelta [(''agent1'', [offer1])] = perHost"
    by (simp add: offersDelta_def FromOffer_def offer1_def getMesosOffer_def Add_def
        ZeroResources_def perHost_def)
  have r: "readyResources poolDrift = ZeroResources"
    by (simp add: poolDrift_def)
  have r': "readyResources poolDriftClaimed = ZeroResources"
    by (simp add: poolDriftClaimed_def poolOneClaimed_def)
  have n: "Add (readyResources poolDriftClaimed) (offersDelta [(''agent1'', [offer1])])
       \<noteq> readyResources poolDrift"
    unfolding d r r' by (simp add: Add_def ZeroResources_def perHost_def)
  from reachable_poolDrift c d r r' n show ?thesis by blast
qed

text \<open>
  Claim C2, amended. For every \<open>ClaimForPlace\<close> call with a non-nil filter whose
  \<open>quantity.max_hosts\<close> is \<open>n\<close>, the returned map holds at most \<open>n\<close> hosts (the list
  has distinct hostnames), and \<open>placing_resources\<close> is increased by exactly the
  componentwise sum of the scalar resources of all returned offers. When no host is
  returned \<open>ready_resources\<close> is left as it is; otherwise it is decreased by that sum
  with the saturating \<open>Subtract\<close>, each component stopping at zero. The decrease is
  exactly the sum if and only if no host is returned or the ready bucket contains the
  sum.
\<close>

theorem ClaimForPlace_quantity:
  assumes "ClaimForPlace evaluate order (Some f) p = Inr (ho, rc, p')"
  shows "distinct (map fst ho) \<and> length ho \<le> unat (MaxHosts f)
       \<and> offersDelta ho = sumOffers (concat (map snd ho))
       \<and> placingResources p' = Add (placingResources p) (offersDelta ho)
       \<and> readyResources p'
           = (if ho = [] then readyResources p else Subtract (readyResources p) (offersDelta ho))
       \<and> (Add (readyResources p') (offersDelta ho) = readyResources p
            \<longleftrightarrow> ho = [] \<or> Contains (readyResources p) (offersDelta ho))"
proof -
  from assms(1) obtain f' index m where f: "Some f = Some f'"
    and mh: "matchHosts evaluate order (hostOfferIndex p) (NewMatcher f') = (index, m)"
    and ho: "ho = m_hostOffers m"
    and p': "p' = (if length ho > 0
               then p\<lparr>hostOfferIndex := index,
                      placingResources := incQuantity (placingResources p) (offersDelta ho),
                      readyResources := decQuantity (readyResources p) (offersDelta ho)\<rparr>
               else p\<lparr>hostOfferIndex := index\<rparr>)"
    by (rule ClaimForPlace_unfold)
  from matchHosts_bounded [OF mh bounded_NewMatcher] matchHosts_hostStep [OF mh] f
  have b: "distinct (map fst ho) \<and> length ho \<le> unat (MaxHosts f)"
    by (simp add: bounded_def ho NewMatcher_def)
  have pl: "placingResources p' = Add (placingResources p) (offersDelta ho)"
  proof (cases "ho = []")
    case True
    then show ?thesis using p' by (simp add: offersDelta_def Add_Zero)
  next
    case False
    then show ?thesis using p' by (simp add: incQuantity_def)
  qed
  have rd: "readyResources p'
      = (if ho = [] then readyResources p else Subtract (readyResources p) (offersDelta ho))"
    using p' by (simp add: decQuantity_def)
  have ex: "Add (readyResources p') (offersDelta ho) = readyResources p
            \<longleftrightarrow> ho = [] \<or> Contains (readyResources p) (offersDelta ho)"
  proof (cases "ho = []")
    case True
    then have "offersDelta ho = ZeroResources" by (simp add: offersDelta_def)
    with True rd show ?thesis by (simp add: Add_Zero)
  next
    case False
    with rd show ?thesis by (simp add: Add_Subtract_iff)
  qed
  from b pl rd ex show ?thesis
    by (simp add: offersDelta_sum)
qed

theorem ClaimForPlace_quantity_witness:
  "ClaimForPlace matchAll [''agent1'', ''agent2''] (Some oneHost) poolTwoHosts
     = Inr ([(''agent1'', [offer1, offer3])], [MATCH \<mapsto> 1], poolOnePlacing)
   \<and> length [(''agent1'', [offer1, offer3])] \<le> unat (MaxHosts oneHost)
   \<and> offersDelta [(''agent1'', [offer1, offer3])] = sumOffers [offer1, offer3]
   \<and> placingResources poolOnePlacing
       = Add (placingResources poolTwoHosts) (offersDelta [(''agent1'', [offer1, offer3])])
   \<and> readyResources poolOnePlacing
       = Subtract (readyResources poolTwoHosts) (offersDelta [(''agent1'', [offer1, offer3])])
   \<and> Contains (readyResources poolTwoHosts) (offersDelta [(''agent1'', [offer1, offer3])])
   \<and> Add (readyResources poolOnePlacing) (offersDelta [(''agent1'', [offer1, offer3])])
       = readyResources poolTwoHosts"
proof -
  have c: "Contains (readyResources poolTwoHosts) (offersDelta [(''agent1'', [offer1, offer3])])"
    by (simp add: poolTwoHosts_def offersDelta_def Contains_def Add_def ZeroResources_def
        FromOffer_def offer1_def offer3_def getMesosOffer_def perHost_def)
  note th = ClaimForPlace_quantity [OF claim_first]
  have l: "length [(''agent1'', [offer1, offer3])] \<le> unat (MaxHosts oneHost)"
    using th by blast
  have d: "offersDelta [(''agent1'', [offer1, offer3])] = sumOffers [offer1, offer3]"
    using th by simp
  have pl: "placingResources poolOnePlacing
       = Add (placingResources poolTwoHosts) (offersDelta [(''agent1'', [offer1, offer3])])"
    using th by blast
  have rd: "readyResources poolOnePlacing
       = Subtract (readyResources poolTwoHosts) (offersDelta [(''agent1'', [offer1, offer3])])"
    using th [THEN conjunct2, THEN conjunct2, THEN conjunct2, THEN conjunct2, THEN conjunct1]
    by simp
  have ex: "Add (readyResources poolOnePlacing) (offersDelta [(''agent1'', [offer1, offer3])])
       = readyResources poolTwoHosts"
    using th [THEN conjunct2, THEN conjunct2, THEN conjunct2, THEN conjunct2, THEN conjunct2] c
    by blast
  from claim_first l d pl rd c ex show ?thesis by blast
qed

section \<open>Returning unused offers\<close>

text \<open>
  Claim C6, as the spec states it: a repeated release of a host that is READY by now
  reports no error. It fails: \<open>ReturnUnusedOffers\<close> returns the error of \<open>CasStatus\<close>,
  whose expected status PLACING is not the status of the host. Releasing \<open>agent1\<close>
  twice: the first release answers nil, the host is READY then, and the second release
  answers an error.
\<close>

theorem ReturnUnusedOffers_twice:
  "fst (ReturnUnusedOffers ''agent1'' poolOnePlacing) = None
   \<and> map_option status (hostOfferIndex (snd (ReturnUnusedOffers ''agent1'' poolOnePlacing)) ''agent1'')
       = Some ReadyOffer
   \<and> fst (ReturnUnusedOffers ''agent1'' (snd (ReturnUnusedOffers ''agent1'' poolOnePlacing)))
       = Some (Error ''invalid cache status'')"
  by (simp add: ReturnUnusedOffers_def CasStatus_def poolOnePlacing_def Let_def)

text \<open>
  Claim C6, amended: for a host in PLACING, \<open>ReturnUnusedOffers\<close> reports no error,
  moves the host back to READY and moves its unreserved amount from
  \<open>placing_resources\<close> to \<open>ready_resources\<close>; this restores the scalars from before an
  acquire that had moved the same amount the other way, when the ready bucket contained
  it and the placing bucket was non-negative. A repeated release of the same host, READY
  by now, leaves the pool unchanged and returns the status error of \<open>CasStatus\<close>; a
  release of a host that has no summary in the pool leaves the pool unchanged and reports
  no error.
\<close>

theorem ReturnUnusedOffers_release:
  assumes "hostOfferIndex p hostname = Some s" and "status s = PlacingOffer"
  shows "ReturnUnusedOffers hostname p =
           (None, p\<lparr>hostOfferIndex := (hostOfferIndex p)(hostname \<mapsto> s\<lparr>status := ReadyOffer\<rparr>),
                     placingResources := Subtract (placingResources p) (UnreservedAmount s),
                     readyResources := Add (readyResources p) (UnreservedAmount s)\<rparr>)
       \<and> (NonNegative placing0 \<and> Contains ready0 (UnreservedAmount s)
            \<and> placingResources p = Add placing0 (UnreservedAmount s)
            \<and> readyResources p = Subtract ready0 (UnreservedAmount s)
          \<longrightarrow> placingResources (snd (ReturnUnusedOffers hostname p)) = placing0
              \<and> readyResources (snd (ReturnUnusedOffers hostname p)) = ready0)
       \<and> ReturnUnusedOffers hostname (snd (ReturnUnusedOffers hostname p)) =
           (Some (Error ''invalid cache status''), snd (ReturnUnusedOffers hostname p))
       \<and> (hostOfferIndex q absent = None \<longrightarrow> ReturnUnusedOffers absent q = (None, q))"
  using assms
  by (simp add: ReturnUnusedOffers_def CasStatus_def UnreservedAmount_def unreservedOffers_def
      decQuantity_def incQuantity_def Let_def Subtract_Add Add_Subtract)

theorem ReturnUnusedOffers_release_witness:
  "hostOfferIndex poolOnePlacing ''agent1''
     = Some \<lparr>status = PlacingOffer, offers = [(''offer1'', offer1), (''offer3'', offer3)]\<rparr>
   \<and> ReturnUnusedOffers ''agent1'' poolOnePlacing = (None, poolTwoHosts)
   \<and> NonNegative (placingResources poolTwoHosts)
   \<and> Contains (readyResources poolTwoHosts)
         (UnreservedAmount \<lparr>status = PlacingOffer, offers = [(''offer1'', offer1), (''offer3'', offer3)]\<rparr>)
   \<and> placingResources (snd (ReturnUnusedOffers ''agent1'' poolOnePlacing)) = placingResources poolTwoHosts
   \<and> readyResources (snd (ReturnUnusedOffers ''agent1'' poolOnePlacing)) = readyResources poolTwoHosts
   \<and> ReturnUnusedOffers ''agent1'' poolTwoHosts = (Some (Error ''invalid cache status''), poolTwoHosts)
   \<and> hostOfferIndex poolTwoHosts ''agent3'' = None
   \<and> ReturnUnusedOffers ''agent3'' poolTwoHosts = (None, poolTwoHosts)"
proof -
  let ?s = "\<lparr>status = PlacingOffer, offers = [(''offer1'', offer1), (''offer3'', offer3)]\<rparr>"
  have i: "hostOfferIndex poolOnePlacing ''agent1'' = Some ?s"
    by (simp add: poolOnePlacing_def)
  have st: "status ?s = PlacingOffer" by simp
  note th = ReturnUnusedOffers_release [OF i st, where q = poolTwoHosts and absent = "''agent3''"
      and ?placing0.0 = "placingResources poolTwoHosts" and ?ready0.0 = "readyResources poolTwoHosts"]
  have u: "UnreservedAmount ?s = \<lparr>CPU = 20, Mem = 40, Disk = 0, GPU = 0, Ports = 0\<rparr>"
    by (simp add: UnreservedAmount_def unreservedOffers_def FromOfferMap_def FromOffer_def
        offer1_def offer3_def getMesosOffer_def perHost_def Add_def ZeroResources_def)
  have r: "ReturnUnusedOffers ''agent1'' poolOnePlacing = (None, poolTwoHosts)"
    apply (simp add: th [THEN conjunct1] u)
    apply (simp add: poolOnePlacing_def poolTwoHosts_def Subtract_def Add_def sat_sub_def ZeroResources_def)
    apply (rule ext)
    apply simp
    done
  have t: "ReturnUnusedOffers ''agent1'' poolTwoHosts = (Some (Error ''invalid cache status''), poolTwoHosts)"
    using th [THEN conjunct2, THEN conjunct2, THEN conjunct1] unfolding r by simp
  have n: "hostOfferIndex poolTwoHosts ''agent3'' = None"
    by (simp add: poolTwoHosts_def)
  have a: "ReturnUnusedOffers ''agent3'' poolTwoHosts = (None, poolTwoHosts)"
    using th [THEN conjunct2, THEN conjunct2, THEN conjunct2] n by blast
  have nn: "NonNegative (placingResources poolTwoHosts)"
    by (simp add: poolTwoHosts_def NonNegative_Zero)
  have co: "Contains (readyResources poolTwoHosts) (UnreservedAmount ?s)"
    by (simp add: u poolTwoHosts_def Contains_def)
  have e1: "placingResources poolOnePlacing = Add (placingResources poolTwoHosts) (UnreservedAmount ?s)"
    by (simp add: u poolOnePlacing_def poolTwoHosts_def Add_def ZeroResources_def)
  have e2: "readyResources poolOnePlacing = Subtract (readyResources poolTwoHosts) (UnreservedAmount ?s)"
    by (simp add: u poolOnePlacing_def poolTwoHosts_def Subtract_def sat_sub_def)
  have re: "placingResources (snd (ReturnUnusedOffers ''agent1'' poolOnePlacing)) = placingResources poolTwoHosts
            \<and> readyResources (snd (ReturnUnusedOffers ''agent1'' poolOnePlacing)) = readyResources poolTwoHosts"
    using th [THEN conjunct2, THEN conjunct1] nn co e1 e2 by blast
  from i r t n a nn co re show ?thesis by blast
qed


section \<open>The index invariant\<close>


lemma incByStatus_proj [simp]:
  "hostOfferIndex (incByStatus st d p) = hostOfferIndex p"
  "timedOffers (incByStatus st d p) = timedOffers p"
  by (cases st; simp add: incByStatus_def)+

lemma decByStatus_proj [simp]:
  "hostOfferIndex (decByStatus st d p) = hostOfferIndex p"
  "timedOffers (decByStatus st d p) = timedOffers p"
  by (cases st; simp add: decByStatus_def)+






lemma setTimed_proj [simp]:
  "hostOfferIndex (setTimed e offer p) = hostOfferIndex p"
  "timedOffers (setTimed e offer p) =
     (timedOffers p)(OfferId offer \<mapsto> \<lparr>Hostname = OfferHostname offer, Expiration = e\<rparr>)"
  by (simp_all add: setTimed_def)













lemma dropOffers_empty: "dropOffers {} h s = s"
  by (simp add: dropOffers_def)

lemma dropOffers_delete:
  "dropOffers R h (s\<lparr>offers := AList.delete oid (offers s)\<rparr>) = dropOffers (insert (oid, h) R) h s"
proof -
  have "filter (\<lambda>(i, offer). (i, h) \<notin> R) (AList.delete oid (offers s))
        = filter (\<lambda>(i, offer). (i, h) \<notin> insert (oid, h) R) (offers s)"
    unfolding AList.delete_eq filter_filter by (rule filter_cong) auto
  then show ?thesis by (simp add: dropOffers_def)
qed

lemma dropOffers_other:
  "h \<noteq> hn \<Longrightarrow> dropOffers (insert (oid, hn) R) h s = dropOffers R h s"
  by (simp add: dropOffers_def)

lemma removeFromHosts_Cons:
  assumes "hostOfferIndex p (Hostname t) = Some s"
  shows "removeFromHosts ((oid, t) # rest) p =
         removeFromHosts rest
           ((case map_of (offers s) oid of
               None \<Rightarrow> p\<lparr>hostOfferIndex := (hostOfferIndex p)(Hostname t \<mapsto> s\<lparr>offers := AList.delete oid (offers s)\<rparr>)\<rparr>
             | Some r \<Rightarrow> decByStatus (status s) (FromOffer r)
                  (p\<lparr>hostOfferIndex := (hostOfferIndex p)(Hostname t \<mapsto> s\<lparr>offers := AList.delete oid (offers s)\<rparr>)\<rparr>))
            \<lparr>availableHosts := (if AList.delete oid (offers s) = [] then (\<lambda>a. a - 1) else (\<lambda>a. a))
               (availableHosts p)\<rparr>)"
  using assms
  by (cases "status s")
     (auto simp: RemoveMesosOffer_def HasAnyOffer_def Let_def decByStatus_def split: option.splits)

lemma decByStatus_fields [simp]:
  "offerHoldTime (decByStatus st d p) = offerHoldTime p"
  "availableHosts (decByStatus st d p) = availableHosts p"
  by (cases st; simp add: decByStatus_def)+

lemma decByStatus_ready:
  "readyResources (decByStatus st d p) =
     (if st = ReadyOffer then decQuantity (readyResources p) d else readyResources p)"
  by (cases st) (simp_all add: decByStatus_def)

lemma decByStatus_placing:
  "placingResources (decByStatus st d p) =
     (if st = PlacingOffer then decQuantity (placingResources p) d else placingResources p)"
  by (cases st) (simp_all add: decByStatus_def)

lemma removedOf_cong:
  assumes "\<And>oid t. (oid, t) \<in> set xs \<Longrightarrow>
             (case hostOfferIndex p' (Hostname t) of None \<Rightarrow> None
              | Some s \<Rightarrow> if status s = st then map_of (offers s) oid else None)
           = (case hostOfferIndex p (Hostname t) of None \<Rightarrow> None
              | Some s \<Rightarrow> if status s = st then map_of (offers s) oid else None)"
  shows "removedOf st p' xs = removedOf st p xs"
  using assms
  by (induction xs) (auto simp: removedOf_def map_filter_simps split: option.splits)

lemma removeFromHosts_effect:
  assumes "distinct (map fst xs)"
    and "\<forall>x \<in> set xs. hostOfferIndex p (Hostname (snd x)) \<noteq> None"
  shows "\<exists>p'. removeFromHosts xs p = Inr p'
     \<and> timedOffers p' = timedOffers p \<and> offerHoldTime p' = offerHoldTime p
     \<and> (\<forall>h. hostOfferIndex p' h = map_option (dropOffers (hostPairs xs) h) (hostOfferIndex p h))
     \<and> readyResources p' = fold (\<lambda>offer r. decQuantity r (FromOffer offer))
                               (removedOf ReadyOffer p xs) (readyResources p)
     \<and> placingResources p' = fold (\<lambda>offer r. decQuantity r (FromOffer offer))
                               (removedOf PlacingOffer p xs) (placingResources p)"
  using assms
proof (induction xs arbitrary: p)
  case Nil
  then show ?case
    by (simp add: hostPairs_def dropOffers_empty removedOf_def map_filter_simps option.map_ident
        cong: option.map_cong)
next
  case (Cons x xs)
  obtain oid t where x: "x = (oid, t)" by (cases x)
  from Cons.prems(2) x obtain s where s: "hostOfferIndex p (Hostname t) = Some s" by auto
  define index1 where
    "index1 = (hostOfferIndex p)(Hostname t \<mapsto> s\<lparr>offers := AList.delete oid (offers s)\<rparr>)"
  define p1 where
    "p1 = (case map_of (offers s) oid of
               None \<Rightarrow> p\<lparr>hostOfferIndex := index1\<rparr>
             | Some r \<Rightarrow> decByStatus (status s) (FromOffer r) (p\<lparr>hostOfferIndex := index1\<rparr>))
            \<lparr>availableHosts := (if AList.delete oid (offers s) = [] then (\<lambda>a. a - 1) else (\<lambda>a. a))
               (availableHosts p)\<rparr>"
  have step: "removeFromHosts (x # xs) p = removeFromHosts xs p1"
    unfolding x p1_def index1_def using s by (rule removeFromHosts_Cons)
  have i1: "hostOfferIndex p1 = index1"
    by (simp add: p1_def split: option.splits)
  have t1: "timedOffers p1 = timedOffers p" "offerHoldTime p1 = offerHoldTime p"
    by (simp_all add: p1_def split: option.splits)
  have r1: "readyResources p1 =
      (case map_of (offers s) oid of None \<Rightarrow> readyResources p
       | Some r \<Rightarrow> if status s = ReadyOffer then decQuantity (readyResources p) (FromOffer r)
                   else readyResources p)"
    by (simp add: p1_def decByStatus_ready split: option.splits)
  have q1: "placingResources p1 =
      (case map_of (offers s) oid of None \<Rightarrow> placingResources p
       | Some r \<Rightarrow> if status s = PlacingOffer then decQuantity (placingResources p) (FromOffer r)
                   else placingResources p)"
    by (simp add: p1_def decByStatus_placing split: option.splits)
  have d: "distinct (map fst xs)" and n: "oid \<notin> fst ` set xs"
    using Cons.prems(1) x by auto
  have h1: "\<forall>y \<in> set xs. hostOfferIndex p1 (Hostname (snd y)) \<noteq> None"
    using Cons.prems(2) unfolding i1 index1_def by auto
  from Cons.IH [OF d h1] obtain p' where
    r: "removeFromHosts xs p1 = Inr p'"
    and t: "timedOffers p' = timedOffers p1" "offerHoldTime p' = offerHoldTime p1"
    and ix: "\<And>h. hostOfferIndex p' h = map_option (dropOffers (hostPairs xs) h) (hostOfferIndex p1 h)"
    and rd: "readyResources p' = fold (\<lambda>offer r. decQuantity r (FromOffer offer))
                               (removedOf ReadyOffer p1 xs) (readyResources p1)"
    and pl: "placingResources p' = fold (\<lambda>offer r. decQuantity r (FromOffer offer))
                               (removedOf PlacingOffer p1 xs) (placingResources p1)"
    by blast
  have hp: "hostPairs (x # xs) = insert (oid, Hostname t) (hostPairs xs)"
    by (simp add: hostPairs_def x)
  have ix': "hostOfferIndex p' h = map_option (dropOffers (hostPairs (x # xs)) h) (hostOfferIndex p h)" for h
  proof (cases "h = Hostname t")
    case True
    then show ?thesis
      unfolding ix i1 index1_def hp using s by (simp add: dropOffers_delete)
  next
    case False
    then show ?thesis
      unfolding ix i1 index1_def hp by (simp add: dropOffers_other cong: option.map_cong)
  qed
  have same: "removedOf st p1 xs = removedOf st p xs" for st
  proof (rule removedOf_cong)
    fix oid' t'
    assume m: "(oid', t') \<in> set xs"
    with n have ne: "oid' \<noteq> oid" by force
    show "(case hostOfferIndex p1 (Hostname t') of None \<Rightarrow> None
              | Some s \<Rightarrow> if status s = st then map_of (offers s) oid' else None)
           = (case hostOfferIndex p (Hostname t') of None \<Rightarrow> None
              | Some s \<Rightarrow> if status s = st then map_of (offers s) oid' else None)"
      unfolding i1 index1_def using s ne by (cases "Hostname t' = Hostname t") simp_all
  qed
  have hd: "removedOf st p (x # xs) =
      (case map_of (offers s) oid of None \<Rightarrow> removedOf st p xs
       | Some r \<Rightarrow> if status s = st then r # removedOf st p xs else removedOf st p xs)" for st
    by (simp add: removedOf_def map_filter_simps x s split: option.splits)
  have rd': "readyResources p' = fold (\<lambda>offer r. decQuantity r (FromOffer offer))
                               (removedOf ReadyOffer p (x # xs)) (readyResources p)"
    unfolding rd same hd r1 by (simp split: option.splits)
  have pl': "placingResources p' = fold (\<lambda>offer r. decQuantity r (FromOffer offer))
                               (removedOf PlacingOffer p (x # xs)) (placingResources p)"
    unfolding pl same hd q1 by (simp split: option.splits)
  from step r t t1 ix' rd' pl' show ?case by simp
qed



lemma collectExpired_eq:
  "distinct order \<Longrightarrow>
   collectExpired now order d timed =
     (\<lambda>oid. if oid \<in> set order \<and> expiredIn now timed oid then timed oid else d oid,
      \<lambda>oid. if oid \<in> set order \<and> expiredIn now timed oid then None else timed oid)"
proof (induction order arbitrary: d timed)
  case Nil
  then show ?case by simp
next
  case (Cons a order)
  from Cons.prems have d: "distinct order" and n: "a \<notin> set order" by simp_all
  have other: "expiredIn now (timed(a := None)) oid = expiredIn now timed oid" if "oid \<noteq> a" for oid
    using that by (simp add: expiredIn_def)
  show ?case
  proof (cases "timed a")
    case None
    then have "\<not> expiredIn now timed a" by (simp add: expiredIn_def)
    with None n show ?thesis
      by (auto simp: Cons.IH [OF d] fun_eq_iff)
  next
    case (Some t)
    show ?thesis
    proof (cases "now > Expiration t")
      case True
      then have e: "expiredIn now timed a" using Some by (simp add: expiredIn_def)
      have "collectExpired now (a # order) d timed
            = collectExpired now order (d(a \<mapsto> t)) (timed(a := None))"
        using Some True by simp
      also have "\<dots> = (\<lambda>oid. if oid \<in> set order \<and> expiredIn now (timed(a := None)) oid
                            then (timed(a := None)) oid else (d(a \<mapsto> t)) oid,
                     \<lambda>oid. if oid \<in> set order \<and> expiredIn now (timed(a := None)) oid
                            then None else (timed(a := None)) oid)"
        by (rule Cons.IH [OF d])
      also have "\<dots> = (\<lambda>oid. if oid \<in> set (a # order) \<and> expiredIn now timed oid then timed oid else d oid,
      \<lambda>oid. if oid \<in> set (a # order) \<and> expiredIn now timed oid then None else timed oid)"
        using n e Some other by (auto simp: fun_eq_iff)
      finally show ?thesis .
    next
      case False
      then have "\<not> expiredIn now timed a" using Some by (simp add: expiredIn_def)
      with Some False n show ?thesis
        by (auto simp: Cons.IH [OF d] fun_eq_iff)
    qed
  qed
qed

lemma expired_list:
  assumes "decl = (\<lambda>oid. if oid \<in> set order \<and> expiredIn now timed oid then timed oid else None)"
  shows "List.map_filter (\<lambda>oid. map_option (Pair oid) (decl oid)) order
         = map (\<lambda>oid. (oid, the (timed oid))) (filter (expiredIn now timed) order)"
proof -
  have f: "filter (\<lambda>oid. map_option (Pair oid) (decl oid) \<noteq> None) order
           = filter (expiredIn now timed) order"
    by (rule filter_cong) (auto simp: assms expiredIn_def split: option.splits)
  show ?thesis
    unfolding map_filter_def f
    by (rule map_cong) (auto simp: assms expiredIn_def split: option.splits)
qed









section \<open>Every tracked offer is in one bag\<close>




section \<open>Removing the expired offers\<close>

lemma sat_sub_nonneg: "0 \<le> sat_sub x y"
  by (simp add: sat_sub_def)

lemma sat_sub_sat_sub: "0 \<le> a \<Longrightarrow> 0 \<le> b \<Longrightarrow> sat_sub (sat_sub x a) b = sat_sub x (a + b)"
  by (simp add: sat_sub_def)

lemma NonNegative_Subtract: "NonNegative (Subtract a b)"
  by (simp add: NonNegative_def Contains_def Subtract_def ZeroResources_def sat_sub_nonneg)

lemma Subtract_Subtract:
  "NonNegative a \<Longrightarrow> NonNegative b \<Longrightarrow> Subtract (Subtract x a) b = Subtract x (Add a b)"
  by (simp add: NonNegative_def Contains_def Subtract_def Add_def ZeroResources_def sat_sub_sat_sub)

lemma NonNegative_Add: "NonNegative a \<Longrightarrow> NonNegative b \<Longrightarrow> NonNegative (Add a b)"
  by (simp add: NonNegative_def Contains_def Add_def ZeroResources_def)

lemma NonNegative_sumOffers:
  "\<forall>offer \<in> set xs. NonNegative (FromOffer offer) \<Longrightarrow> NonNegative (sumOffers xs)"
  by (induction xs) (simp_all add: sumOffers_Nil sumOffers_Cons NonNegative_Zero NonNegative_Add)

lemma fold_dec_sum:
  assumes "\<forall>offer \<in> set xs. NonNegative (FromOffer offer)" and "NonNegative r"
  shows "fold (\<lambda>offer r. decQuantity r (FromOffer offer)) xs r = Subtract r (sumOffers xs)"
  using assms
proof (induction xs arbitrary: r)
  case Nil
  then show ?case by (simp add: sumOffers_Nil Subtract_Zero NonNegative_def)
next
  case (Cons a xs)
  have "fold (\<lambda>offer r. decQuantity r (FromOffer offer)) (a # xs) r
        = Subtract (Subtract r (FromOffer a)) (sumOffers xs)"
    using Cons.IH [of "Subtract r (FromOffer a)"] Cons.prems(1)
    by (simp add: decQuantity_def NonNegative_Subtract)
  also have "\<dots> = Subtract r (Add (FromOffer a) (sumOffers xs))"
    using Cons.prems(1) by (simp add: Subtract_Subtract NonNegative_sumOffers)
  finally show ?case by (simp add: sumOffers_Cons)
qed

lemma removedOf_member:
  assumes "offer \<in> set (removedOf st p xs)"
  shows "\<exists>h s. hostOfferIndex p h = Some s \<and> offer \<in> snd ` set (offers s)"
  using assms
proof (induction xs)
  case Nil
  then show ?case by (simp add: removedOf_def map_filter_simps)
next
  case (Cons x xs)
  obtain oid t where x: "x = (oid, t)" by (cases x)
  show ?case
  proof (cases "offer \<in> set (removedOf st p xs)")
    case True
    then show ?thesis by (rule Cons.IH)
  next
    case False
    with Cons.prems x obtain s where "hostOfferIndex p (Hostname t) = Some s"
      and "map_of (offers s) oid = Some offer"
      by (auto simp: removedOf_def map_filter_simps split: option.splits if_splits)
    then have "hostOfferIndex p (Hostname t) = Some s \<and> offer \<in> snd ` set (offers s)"
      by (force dest: map_of_SomeD)
    then show ?thesis by blast
  qed
qed

text \<open>
  Claim C5. In a pool whose expired entries name hosts that have a summary (and whose
  scalars are non-negative), \<open>RemoveExpiredOffers\<close> returns; the returned map holds
  exactly the entries of \<open>timedOffers\<close> whose expiration precedes \<open>now\<close>; exactly those
  have left \<open>timedOffers\<close>, and each has left the bag of its host; the returned number
  is the number of entries that remain; the ready bucket is decreased by the removed
  offers that were found on READY hosts and the placing bucket by those found on PLACING
  hosts.
\<close>

theorem RemoveExpiredOffers_exact:
  assumes "enumerates order (timedOffers p)"
    and "expiredHostsKnown now p"
    and "offersNonNegative p"
    and "NonNegative (readyResources p)" and "NonNegative (placingResources p)"
  shows "\<exists>p'. RemoveExpiredOffers now order p =
           Inr (\<lambda>oid. if expiredIn now (timedOffers p) oid then timedOffers p oid else None,
                card {oid. timedOffers p oid \<noteq> None \<and> \<not> expiredIn now (timedOffers p) oid}, p')
     \<and> timedOffers p' =
         (\<lambda>oid. if expiredIn now (timedOffers p) oid then None else timedOffers p oid)
     \<and> (\<forall>h. hostOfferIndex p' h =
            map_option (dropOffers (expiredPairs now p) h) (hostOfferIndex p h))
     \<and> readyResources p' =
         Subtract (readyResources p) (sumOffers (removedOf ReadyOffer p (expiredList now order p)))
     \<and> placingResources p' =
         Subtract (placingResources p) (sumOffers (removedOf PlacingOffer p (expiredList now order p)))"
proof -
  from assms(1) have dist: "distinct order" and dom: "set order = dom (timedOffers p)"
    by (simp_all add: enumerates_def)
  define xs where "xs = expiredList now order p"
  define timed where
    "timed = (\<lambda>oid. if oid \<in> set order \<and> expiredIn now (timedOffers p) oid then None
                    else timedOffers p oid)"
  define p1 where "p1 = p\<lparr>timedOffers := timed\<rparr>"
  have ex: "expiredIn now (timedOffers p) oid \<longleftrightarrow> (\<exists>t. timedOffers p oid = Some t \<and> now > Expiration t)"
    for oid by (auto simp: expiredIn_def split: option.splits)
  have inord: "oid \<in> set order \<and> expiredIn now (timedOffers p) oid \<longleftrightarrow> expiredIn now (timedOffers p) oid"
    for oid using dom ex by auto
  have d: "distinct (map fst xs)"
    using dist by (simp add: xs_def expiredList_def comp_def)
  have h: "\<forall>x \<in> set xs. hostOfferIndex p1 (Hostname (snd x)) \<noteq> None"
    using assms(2) by (auto simp: xs_def expiredList_def p1_def ex expiredHostsKnown_def)
  from removeFromHosts_effect [OF d h] obtain p' where
    r: "removeFromHosts xs p1 = Inr p'"
    and t: "timedOffers p' = timedOffers p1"
    and ix: "\<And>h. hostOfferIndex p' h = map_option (dropOffers (hostPairs xs) h) (hostOfferIndex p1 h)"
    and rd: "readyResources p' = fold (\<lambda>offer r. decQuantity r (FromOffer offer))
                               (removedOf ReadyOffer p1 xs) (readyResources p1)"
    and pl: "placingResources p' = fold (\<lambda>offer r. decQuantity r (FromOffer offer))
                               (removedOf PlacingOffer p1 xs) (placingResources p1)"
    by blast
  have hp: "hostPairs xs = expiredPairs now p"
    using dom by (auto simp: hostPairs_def xs_def expiredList_def expiredPairs_def ex image_iff)
  have res: "RemoveExpiredOffers now order p =
           Inr (\<lambda>oid. if oid \<in> set order \<and> expiredIn now (timedOffers p) oid
                      then timedOffers p oid else None,
                card (dom (timedOffers p')), p')"
    using r unfolding RemoveExpiredOffers_def collectExpired_eq [OF dist]
    by (simp add: Let_def expired_list [OF refl] xs_def expiredList_def p1_def timed_def)
  have i1: "hostOfferIndex p1 = hostOfferIndex p" by (simp add: p1_def)
  have same: "removedOf st p1 xs = removedOf st p xs" for st
    by (rule removedOf_cong) (simp add: i1)
  have nn: "\<forall>offer \<in> set (removedOf st p xs). NonNegative (FromOffer offer)" for st
    using assms(3) removedOf_member [of _ st p xs] unfolding offersNonNegative_def by blast
  have rd': "readyResources p' = Subtract (readyResources p) (sumOffers (removedOf ReadyOffer p xs))"
    unfolding rd same using fold_dec_sum [OF nn, of "readyResources p1" ReadyOffer] assms(4)
    by (simp add: p1_def)
  have pl': "placingResources p' = Subtract (placingResources p) (sumOffers (removedOf PlacingOffer p xs))"
    unfolding pl same using fold_dec_sum [OF nn, of "placingResources p1" PlacingOffer] assms(5)
    by (simp add: p1_def)
  have t': "timedOffers p' = (\<lambda>oid. if expiredIn now (timedOffers p) oid then None else timedOffers p oid)"
    unfolding t by (simp add: p1_def timed_def inord)
  have c: "dom (timedOffers p') = {oid. timedOffers p oid \<noteq> None \<and> \<not> expiredIn now (timedOffers p) oid}"
    unfolding t' by (auto split: if_splits)
  from res t' ix rd' pl' show ?thesis
    unfolding c hp [unfolded xs_def] i1 inord xs_def by blast
qed

theorem RemoveExpiredOffers_exact_witness:
  "enumerates [''offer1'', ''offer2'', ''offer3'', ''offer4''] (timedOffers poolExpiry)
   \<and> expiredHostsKnown 0 poolExpiry \<and> offersNonNegative poolExpiry
   \<and> NonNegative (readyResources poolExpiry) \<and> NonNegative (placingResources poolExpiry)
   \<and> (\<exists>p'. RemoveExpiredOffers 0 [''offer1'', ''offer2'', ''offer3'', ''offer4''] poolExpiry
             = Inr ([''offer1'' \<mapsto> \<lparr>Hostname = ''agent1'', Expiration = - 120\<rparr>,
                     ''offer4'' \<mapsto> \<lparr>Hostname = ''agent4'', Expiration = - 120\<rparr>], 2, p')
          \<and> timedOffers p' = [''offer2'' \<mapsto> \<lparr>Hostname = ''agent2'', Expiration = 60\<rparr>,
                                 ''offer3'' \<mapsto> \<lparr>Hostname = ''agent1'', Expiration = 60\<rparr>]
          \<and> hostOfferIndex p' ''agent1'' = Some \<lparr>status = ReadyOffer, offers = [(''offer3'', offer3)]\<rparr>
          \<and> hostOfferIndex p' ''agent2'' = Some \<lparr>status = ReadyOffer, offers = [(''offer2'', offer2)]\<rparr>
          \<and> hostOfferIndex p' ''agent4'' = Some \<lparr>status = ReadyOffer, offers = []\<rparr>
          \<and> readyResources p' = \<lparr>CPU = 20, Mem = 40, Disk = 0, GPU = 0, Ports = 0\<rparr>
          \<and> placingResources p' = ZeroResources)"
proof -
  let ?order = "[''offer1'', ''offer2'', ''offer3'', ''offer4'']"
  have e: "enumerates ?order (timedOffers poolExpiry)"
    by (auto simp: enumerates_def poolExpiry_def split: if_splits)
  have k: "expiredHostsKnown 0 poolExpiry"
    by (auto simp: expiredHostsKnown_def poolExpiry_def split: if_splits)
  have n: "offersNonNegative poolExpiry"
    by (auto simp: offersNonNegative_def poolExpiry_def FromOffer_def offer1_def offer2_def
        offer3_def offer4_def getMesosOffer_def NonNegative_perHost split: if_splits)
  have r: "NonNegative (readyResources poolExpiry)"
    by (simp add: poolExpiry_def NonNegative_def Contains_def ZeroResources_def)
  have q: "NonNegative (placingResources poolExpiry)"
    by (simp add: poolExpiry_def NonNegative_Zero)
  from RemoveExpiredOffers_exact [OF e k n r q] obtain p' where
    res: "RemoveExpiredOffers 0 ?order poolExpiry =
           Inr (\<lambda>oid. if expiredIn 0 (timedOffers poolExpiry) oid then timedOffers poolExpiry oid else None,
                card {oid. timedOffers poolExpiry oid \<noteq> None \<and> \<not> expiredIn 0 (timedOffers poolExpiry) oid}, p')"
    and t: "timedOffers p' =
         (\<lambda>oid. if expiredIn 0 (timedOffers poolExpiry) oid then None else timedOffers poolExpiry oid)"
    and ix: "\<And>h. hostOfferIndex p' h =
            map_option (dropOffers (expiredPairs 0 poolExpiry) h) (hostOfferIndex poolExpiry h)"
    and rd: "readyResources p' =
         Subtract (readyResources poolExpiry) (sumOffers (removedOf ReadyOffer poolExpiry (expiredList 0 ?order poolExpiry)))"
    and pl: "placingResources p' =
         Subtract (placingResources poolExpiry) (sumOffers (removedOf PlacingOffer poolExpiry (expiredList 0 ?order poolExpiry)))"
    by blast
  have m1: "(\<lambda>oid. if expiredIn 0 (timedOffers poolExpiry) oid then timedOffers poolExpiry oid else None)
            = [''offer1'' \<mapsto> \<lparr>Hostname = ''agent1'', Expiration = - 120\<rparr>,
               ''offer4'' \<mapsto> \<lparr>Hostname = ''agent4'', Expiration = - 120\<rparr>]"
    by (rule ext) (simp add: expiredIn_def poolExpiry_def)
  have m2: "(\<lambda>oid. if expiredIn 0 (timedOffers poolExpiry) oid then None else timedOffers poolExpiry oid)
            = [''offer2'' \<mapsto> \<lparr>Hostname = ''agent2'', Expiration = 60\<rparr>,
               ''offer3'' \<mapsto> \<lparr>Hostname = ''agent1'', Expiration = 60\<rparr>]"
    by (rule ext) (simp add: expiredIn_def poolExpiry_def)
  have "{oid. timedOffers poolExpiry oid \<noteq> None \<and> \<not> expiredIn 0 (timedOffers poolExpiry) oid}
        = {''offer2'', ''offer3''}"
    by (auto simp: expiredIn_def poolExpiry_def split: if_splits)
  then have c: "card {oid. timedOffers poolExpiry oid \<noteq> None \<and> \<not> expiredIn 0 (timedOffers poolExpiry) oid} = 2"
    by simp
  have ep: "expiredPairs 0 poolExpiry = {(''offer1'', ''agent1''), (''offer4'', ''agent4'')}"
    by (auto simp: expiredPairs_def poolExpiry_def split: if_splits)
  have el: "expiredList 0 ?order poolExpiry =
      [(''offer1'', \<lparr>Hostname = ''agent1'', Expiration = - 120\<rparr>),
       (''offer4'', \<lparr>Hostname = ''agent4'', Expiration = - 120\<rparr>)]"
    by (simp add: expiredList_def expiredIn_def poolExpiry_def)
  have a1: "hostOfferIndex p' ''agent1'' = Some \<lparr>status = ReadyOffer, offers = [(''offer3'', offer3)]\<rparr>"
    unfolding ix ep by (simp add: poolExpiry_def dropOffers_def)
  have a2: "hostOfferIndex p' ''agent2'' = Some \<lparr>status = ReadyOffer, offers = [(''offer2'', offer2)]\<rparr>"
    unfolding ix ep by (simp add: poolExpiry_def dropOffers_def)
  have a4: "hostOfferIndex p' ''agent4'' = Some \<lparr>status = ReadyOffer, offers = []\<rparr>"
    unfolding ix ep by (simp add: poolExpiry_def dropOffers_def)
  have rd': "readyResources p' = \<lparr>CPU = 20, Mem = 40, Disk = 0, GPU = 0, Ports = 0\<rparr>"
    unfolding rd el
    by (simp add: removedOf_def map_filter_simps poolExpiry_def sumOffers_def FromOffer_def
        offer1_def offer4_def getMesosOffer_def perHost_def Subtract_def sat_sub_def)
  have pl': "placingResources p' = ZeroResources"
    unfolding pl el
    by (simp add: removedOf_def map_filter_simps poolExpiry_def sumOffers_def
        Subtract_def sat_sub_def ZeroResources_def)
  from res t a1 a2 a4 rd' pl' have
    "RemoveExpiredOffers 0 ?order poolExpiry
             = Inr ([''offer1'' \<mapsto> \<lparr>Hostname = ''agent1'', Expiration = - 120\<rparr>,
                     ''offer4'' \<mapsto> \<lparr>Hostname = ''agent4'', Expiration = - 120\<rparr>], 2, p')
          \<and> timedOffers p' = [''offer2'' \<mapsto> \<lparr>Hostname = ''agent2'', Expiration = 60\<rparr>,
                                 ''offer3'' \<mapsto> \<lparr>Hostname = ''agent1'', Expiration = 60\<rparr>]
          \<and> hostOfferIndex p' ''agent1'' = Some \<lparr>status = ReadyOffer, offers = [(''offer3'', offer3)]\<rparr>
          \<and> hostOfferIndex p' ''agent2'' = Some \<lparr>status = ReadyOffer, offers = [(''offer2'', offer2)]\<rparr>
          \<and> hostOfferIndex p' ''agent4'' = Some \<lparr>status = ReadyOffer, offers = []\<rparr>
          \<and> readyResources p' = \<lparr>CPU = 20, Mem = 40, Disk = 0, GPU = 0, Ports = 0\<rparr>
          \<and> placingResources p' = ZeroResources"
    unfolding m1 m2 c by blast
  with e k n r q show ?thesis by blast
qed

section \<open>Mutating calls on a non-leader\<close>

text \<open>
  Claim C9, as the spec states it: a mutating call on a non-leader fails with an error of
  kind FAILED_PRECONDITION. It fails: \<open>CreateJob\<close> builds the error with
  \<open>yarpcerrors.UnavailableErrorf\<close>, and with a conversion that leaves the error alone
  the kind that surfaces is UNAVAILABLE.
\<close>

theorem CreateJob_non_leader_not_failed_precondition:
  "errorCode (CreateJob (\<lambda>err. err) (\<lambda>jobId. True) ''fresh'' (\<lambda>jobId req. Inr jobId)
                nonLeader someRequest) = Some CodeUnavailable
   \<and> CodeUnavailable \<noteq> CodeFailedPrecondition"
  by (simp add: CreateJob_def errorCode_def nonLeader_def)

text \<open>
  Claim C9, amended: \<open>CreateJob\<close> and \<open>RefreshJob\<close>, the two calls of the handler that
  ask \<open>IsLeader\<close>, fail on an instance that is not the leader, whatever the request, and
  the error surfaced is the status error of kind UNAVAILABLE that the handler builds,
  for every \<open>ConvertToYARPCError\<close> that returns status errors as they are.
\<close>

theorem non_leader_unavailable:
  assumes "keepsStatus ConvertToYARPCError" and "\<not> IsLeader h"
  shows "CreateJob ConvertToYARPCError uuidParse uuidNew createValidJob h req
           = Inl (YARPCStatus CodeUnavailable ''JobSVC.CreateJob is not supported on non-leader'')
       \<and> RefreshJob ConvertToYARPCError refreshFromStore h jobId
           = Inl (YARPCStatus CodeUnavailable ''JobSVC.RefreshJob is not supported on non-leader'')"
  using assms by (simp add: CreateJob_def RefreshJob_def keepsStatus_def)

theorem non_leader_unavailable_witness:
  "keepsStatus (\<lambda>err. err) \<and> \<not> IsLeader nonLeader
   \<and> CreateJob (\<lambda>err. err) (\<lambda>jobId. True) ''fresh'' (\<lambda>jobId req. Inr jobId) nonLeader someRequest
       = Inl (YARPCStatus CodeUnavailable ''JobSVC.CreateJob is not supported on non-leader'')
   \<and> RefreshJob (\<lambda>err. err) (\<lambda>jobId. Inr jobId) nonLeader ''job''
       = Inl (YARPCStatus CodeUnavailable ''JobSVC.RefreshJob is not supported on non-leader'')"
proof -
  have k: "keepsStatus (\<lambda>err. err)" by (simp add: keepsStatus_def)
  have n: "\<not> IsLeader nonLeader" by (simp add: nonLeader_def)
  from non_leader_unavailable [OF k n, of "\<lambda>jobId. True" "''fresh''" "\<lambda>jobId req. Inr jobId" someRequest
      "\<lambda>jobId. Inr jobId" "''job''"] k n
  show ?thesis by blast
qed

section \<open>Marking a task done\<close>

lemma MarkItDone_untracked:
  "tasks tr tID = None \<Longrightarrow> MarkItDone tID tr = Inl (Error ''task is not in tracker'')"
  by (simp add: MarkItDone_def)

lemma MarkItDone_tasks:
  "MarkItDone other tr = Inr tr' \<Longrightarrow> tasks tr' = (tasks tr)(other := None)"
  by (auto simp: MarkItDone_def SubtractFromAllocation_def Let_def split: option.splits if_splits)

lemma markAll_untracked:
  "tasks tr tID = None \<Longrightarrow> markAll ids tr = markAll (removeAll tID ids) tr"
proof (induction ids arbitrary: tr)
  case Nil
  then show ?case by (simp add: markAll_def)
next
  case (Cons a ids)
  show ?case
  proof (cases "a = tID")
    case True
    with Cons show ?thesis by (simp add: markAll_def MarkItDone_untracked)
  next
    case False
    show ?thesis
    proof (cases "MarkItDone a tr")
      case (Inl err)
      with False Cons show ?thesis by (simp add: markAll_def)
    next
      case (Inr tr')
      from MarkItDone_tasks [OF Inr] Cons.prems have "tasks tr' tID = None" by simp
      from Cons.IH [OF this] Inr False show ?thesis by (simp add: markAll_def)
    qed
  qed
qed

text \<open>
  Claim C3. For every tracked task, \<open>MarkItDone\<close> succeeds; it subtracts the resource of
  the task from the allocation of its pool if the state of the task is one of READY,
  PLACING, PLACED, LAUNCHING, LAUNCHED, RUNNING, RESERVED, and leaves every allocation
  as it is otherwise, in particular for INITIALIZED and PENDING. The task is no longer
  tracked afterwards: a second \<open>MarkItDone\<close> for it is refused, and in any later sequence
  of \<open>MarkItDone\<close> calls those for this task change nothing, so its resource is not
  subtracted twice.
\<close>

theorem MarkItDone_allocation:
  assumes "tasks tr tID = Some t"
  shows "\<exists>tr'. MarkItDone tID tr = Inr tr'
     \<and> allocation tr' =
         (if task_state t \<in> {READY, PLACING, PLACED, LAUNCHING, LAUNCHED, RUNNING, RESERVED}
          then (allocation tr)(task_respool t :=
                  Subtract (allocation tr (task_respool t)) (task_resource t))
          else allocation tr)
     \<and> (task_state t \<in> {INITIALIZED, PENDING} \<longrightarrow> allocation tr' = allocation tr)
     \<and> tasks tr' = (tasks tr)(tID := None)
     \<and> MarkItDone tID tr' = Inl (Error ''task is not in tracker'')
     \<and> (\<forall>ids. markAll ids tr' = markAll (removeAll tID ids) tr')"
proof -
  define tr' where "tr' = (if holdsAllocation (task_state t)
                     then SubtractFromAllocation (task_respool t) (task_resource t) tr
                     else tr)\<lparr>tasks := (tasks tr)(tID := None)\<rparr>"
  have m: "MarkItDone tID tr = Inr tr'"
    using assms by (simp add: MarkItDone_def tr'_def SubtractFromAllocation_def Let_def)
  have t: "tasks tr' = (tasks tr)(tID := None)" by (simp add: tr'_def)
  then have u: "tasks tr' tID = None" by simp
  have a: "allocation tr' =
         (if task_state t \<in> {READY, PLACING, PLACED, LAUNCHING, LAUNCHED, RUNNING, RESERVED}
          then (allocation tr)(task_respool t :=
                  Subtract (allocation tr (task_respool t)) (task_resource t))
          else allocation tr)"
    by (simp add: tr'_def holdsAllocation_def SubtractFromAllocation_def)
  have b: "task_state t \<in> {INITIALIZED, PENDING} \<longrightarrow> allocation tr' = allocation tr"
    unfolding a by auto
  from m a b t MarkItDone_untracked [OF u] markAll_untracked [OF u] show ?thesis by blast
qed

theorem MarkItDone_allocation_witness:
  "tasks trackerTest ''job1-1''
     = Some \<lparr>task_resource = taskResources, task_state = INITIALIZED, task_respool = ''respool-1''\<rparr>
   \<and> (\<exists>tr'. MarkItDone ''job1-1'' trackerTest = Inr tr' \<and> allocation tr' = allocation trackerTest)
   \<and> tasks trackerTest ''job1-3''
     = Some \<lparr>task_resource = taskResources, task_state = READY, task_respool = ''respool-3''\<rparr>
   \<and> (\<exists>tr'. MarkItDone ''job1-3'' trackerTest = Inr tr'
          \<and> allocation tr' ''respool-3'' = ZeroResources
          \<and> allocation tr' ''respool-1'' = taskResources
          \<and> MarkItDone ''job1-3'' tr' = Inl (Error ''task is not in tracker'')
          \<and> markAll [''job1-3'', ''job1-3''] tr' = tr')"
proof -
  let ?t1 = "\<lparr>task_resource = taskResources, task_state = INITIALIZED, task_respool = ''respool-1''\<rparr>"
  let ?t3 = "\<lparr>task_resource = taskResources, task_state = READY, task_respool = ''respool-3''\<rparr>"
  have i1: "tasks trackerTest ''job1-1'' = Some ?t1" by (simp add: trackerTest_def)
  have i3: "tasks trackerTest ''job1-3'' = Some ?t3" by (simp add: trackerTest_def)
  from MarkItDone_allocation [OF i1] obtain tr1 where
    m1: "MarkItDone ''job1-1'' trackerTest = Inr tr1" and a1: "allocation tr1 = allocation trackerTest"
    by auto
  from MarkItDone_allocation [OF i3] obtain tr3 where
    m3: "MarkItDone ''job1-3'' trackerTest = Inr tr3"
    and a3: "allocation tr3 = (allocation trackerTest)(''respool-3'' :=
                  Subtract (allocation trackerTest ''respool-3'') taskResources)"
    and e3: "MarkItDone ''job1-3'' tr3 = Inl (Error ''task is not in tracker'')"
    and n3: "\<And>ids. markAll ids tr3 = markAll (removeAll ''job1-3'' ids) tr3"
    by auto
  have z: "allocation tr3 ''respool-3'' = ZeroResources"
    unfolding a3 by (simp add: trackerTest_def taskResources_def Subtract_def sat_sub_def ZeroResources_def)
  have o: "allocation tr3 ''respool-1'' = taskResources"
    unfolding a3 by (simp add: trackerTest_def)
  have k: "markAll [''job1-3'', ''job1-3''] tr3 = tr3"
    using n3 [of "[''job1-3'', ''job1-3'']"] by (simp add: markAll_def)
  from i1 i3 m1 a1 m3 z o e3 k show ?thesis by blast
qed

section \<open>A failed task\<close>

text \<open>
  Claim C7, as the spec states it: whenever a retry applies, the task is re-enqueued. It
  fails when the job's configuration cannot be read, the case of
  \<open>TestProcessTaskFailedRetryDBFailure\<close>: the runtime is INITIALIZED with one failure
  counted, and nothing is enqueued.
\<close>

theorem retry_without_job_config:
  "rt_State (ti_Runtime (fst (ProcessStatusUpdate (\<lambda>reason. True) ''job-0-new'' (\<lambda>jobId. None)
                                containerLaunchFailed runningTask))) = INITIALIZED
   \<and> rt_FailuresCount (ti_Runtime (fst (ProcessStatusUpdate (\<lambda>reason. True) ''job-0-new''
                                          (\<lambda>jobId. None) containerLaunchFailed runningTask))) = 1
   \<and> snd (ProcessStatusUpdate (\<lambda>reason. True) ''job-0-new'' (\<lambda>jobId. None)
             containerLaunchFailed runningTask) = []"
  by (simp add: ProcessStatusUpdate_def containerLaunchFailed_def runningTask_def)

text \<open>
  Claim C7, amended: when a status event reports FAILED with a retryable reason and the
  failure count of the task is below \<open>max_failures\<close>, the runtime is rewritten to
  INITIALIZED with the count incremented, the new mesos task id, the reason of the
  event and the rescheduling message, and the task is enqueued once into the pool of its
  job when the job's configuration can be read and not at all when it cannot; when no
  retry applies the runtime is written as FAILED with the reason of the event and
  nothing is enqueued.
\<close>

theorem ProcessStatusUpdate_failed:
  assumes "ts_State event = FAILED"
  shows "(retryable (ts_Reason event) \<and> rt_FailuresCount (ti_Runtime taskInfo) < ti_MaxFailures taskInfo
          \<longrightarrow> ti_Runtime (fst (ProcessStatusUpdate retryable newMesosTaskID getJobRespool event taskInfo))
                = (ti_Runtime taskInfo)
                    \<lparr>rt_State := INITIALIZED, rt_MesosTaskId := newMesosTaskID,
                     rt_Reason := ts_Reason event,
                     rt_Message := ''Rescheduled due to task failure status: '' @ ts_Message event,
                     rt_FailuresCount := rt_FailuresCount (ti_Runtime taskInfo) + 1\<rparr>
              \<and> snd (ProcessStatusUpdate retryable newMesosTaskID getJobRespool event taskInfo)
                = (case getJobRespool (ti_JobId taskInfo) of
                     None \<Rightarrow> []
                   | Some respool \<Rightarrow>
                       [\<lparr>eg_Respool = respool, eg_JobId = ti_JobId taskInfo,
                         eg_InstanceId = ti_InstanceId taskInfo\<rparr>]))
       \<and> (\<not> (retryable (ts_Reason event)
               \<and> rt_FailuresCount (ti_Runtime taskInfo) < ti_MaxFailures taskInfo)
          \<longrightarrow> ti_Runtime (fst (ProcessStatusUpdate retryable newMesosTaskID getJobRespool event taskInfo))
                = (ti_Runtime taskInfo)
                    \<lparr>rt_State := FAILED, rt_Reason := ts_Reason event,
                     rt_Message := ts_Message event\<rparr>
              \<and> snd (ProcessStatusUpdate retryable newMesosTaskID getJobRespool event taskInfo) = [])"
  using assms by (simp add: ProcessStatusUpdate_def Let_def)

theorem ProcessStatusUpdate_failed_witness:
  "ts_State containerLaunchFailed = FAILED
   \<and> rt_FailuresCount (ti_Runtime runningTask) < ti_MaxFailures runningTask
   \<and> ProcessStatusUpdate (\<lambda>reason. True) ''job-0-new'' (\<lambda>jobId. Some ''respool-1'')
        containerLaunchFailed runningTask
       = (runningTask\<lparr>ti_Runtime :=
            \<lparr>rt_State = INITIALIZED, rt_GoalState = SUCCEEDED, rt_MesosTaskId = ''job-0-new'',
             rt_Reason = ''REASON_CONTAINER_LAUNCH_FAILED'',
             rt_Message = ''Rescheduled due to task failure status: testFailure'',
             rt_FailuresCount = 1\<rparr>\<rparr>,
          [\<lparr>eg_Respool = ''respool-1'', eg_JobId = ''job'', eg_InstanceId = 0\<rparr>])
   \<and> \<not> rt_FailuresCount (ti_Runtime noRetryTask) < ti_MaxFailures noRetryTask
   \<and> ProcessStatusUpdate (\<lambda>reason. True) ''job-0-new'' (\<lambda>jobId. Some ''respool-1'')
        containerLaunchFailed noRetryTask
       = (noRetryTask\<lparr>ti_Runtime :=
            \<lparr>rt_State = FAILED, rt_GoalState = SUCCEEDED, rt_MesosTaskId = ''job-0-uuid'',
             rt_Reason = ''REASON_CONTAINER_LAUNCH_FAILED'', rt_Message = ''testFailure'',
             rt_FailuresCount = 0\<rparr>\<rparr>, [])"
proof -
  have f: "ts_State containerLaunchFailed = FAILED" by (simp add: containerLaunchFailed_def)
  have c: "rt_FailuresCount (ti_Runtime runningTask) < ti_MaxFailures runningTask"
    by (simp add: runningTask_def)
  have n: "\<not> rt_FailuresCount (ti_Runtime noRetryTask) < ti_MaxFailures noRetryTask"
    by (simp add: noRetryTask_def)
  note retry = ProcessStatusUpdate_failed [OF f, of "\<lambda>reason. True" runningTask "''job-0-new''"
      "\<lambda>jobId. Some ''respool-1''", THEN conjunct1, rule_format]
  note terminal = ProcessStatusUpdate_failed [OF f, of "\<lambda>reason. True" noRetryTask "''job-0-new''"
      "\<lambda>jobId. Some ''respool-1''", THEN conjunct2, rule_format]
  have r: "ProcessStatusUpdate (\<lambda>reason. True) ''job-0-new'' (\<lambda>jobId. Some ''respool-1'')
        containerLaunchFailed runningTask
       = (runningTask\<lparr>ti_Runtime :=
            \<lparr>rt_State = INITIALIZED, rt_GoalState = SUCCEEDED, rt_MesosTaskId = ''job-0-new'',
             rt_Reason = ''REASON_CONTAINER_LAUNCH_FAILED'',
             rt_Message = ''Rescheduled due to task failure status: testFailure'',
             rt_FailuresCount = 1\<rparr>\<rparr>,
          [\<lparr>eg_Respool = ''respool-1'', eg_JobId = ''job'', eg_InstanceId = 0\<rparr>])"
    using retry c
    by (simp add: ProcessStatusUpdate_def containerLaunchFailed_def runningTask_def)
  have t: "ProcessStatusUpdate (\<lambda>reason. True) ''job-0-new'' (\<lambda>jobId. Some ''respool-1'')
        containerLaunchFailed noRetryTask
       = (noRetryTask\<lparr>ti_Runtime :=
            \<lparr>rt_State = FAILED, rt_GoalState = SUCCEEDED, rt_MesosTaskId = ''job-0-uuid'',
             rt_Reason = ''REASON_CONTAINER_LAUNCH_FAILED'', rt_Message = ''testFailure'',
             rt_FailuresCount = 0\<rparr>\<rparr>, [])"
    using terminal n
    by (simp add: ProcessStatusUpdate_def containerLaunchFailed_def noRetryTask_def)
  from f c r n t show ?thesis by blast
qed

section \<open>Rescinding an offer of an unknown host\<close>

text \<open>
  Claim C10. If \<open>RescindOffer\<close> is called with an offer id that is present in
  \<open>timedOffers\<close> but whose recorded hostname is absent from the host index, it returns
  false, and the pool it leaves behind is the old one with that \<open>timedOffers\<close> entry
  deleted: a false return does not mean that the pool was left unchanged.
\<close>

theorem RescindOffer_unknown_host:
  assumes "timedOffers p oID = Some offer"
    and "hostOfferIndex p (Hostname offer) = None"
  shows "RescindOffer oID p = (False, p\<lparr>timedOffers := (timedOffers p)(oID := None)\<rparr>)
         \<and> timedOffers (snd (RescindOffer oID p)) oID = None
         \<and> snd (RescindOffer oID p) \<noteq> p"
proof -
  have r: "RescindOffer oID p = (False, p\<lparr>timedOffers := (timedOffers p)(oID := None)\<rparr>)"
    using assms by (simp add: RescindOffer_def)
  have "timedOffers (snd (RescindOffer oID p)) oID \<noteq> timedOffers p oID"
    using assms r by simp
  then have "snd (RescindOffer oID p) \<noteq> p" by auto
  with r show ?thesis by simp
qed

theorem RescindOffer_unknown_host_witness:
  "timedOffers poolUnknownHost ''offer1'' = Some \<lparr>Hostname = ''agent1'', Expiration = 100\<rparr>
   \<and> hostOfferIndex poolUnknownHost ''agent1'' = None
   \<and> fst (RescindOffer ''offer1'' poolUnknownHost) = False
   \<and> timedOffers (snd (RescindOffer ''offer1'' poolUnknownHost)) ''offer1'' = None
   \<and> snd (RescindOffer ''offer1'' poolUnknownHost) \<noteq> poolUnknownHost"
proof -
  have t: "timedOffers poolUnknownHost ''offer1'' = Some \<lparr>Hostname = ''agent1'', Expiration = 100\<rparr>"
    by (simp add: poolUnknownHost_def)
  have h: "hostOfferIndex poolUnknownHost (Hostname \<lparr>Hostname = ''agent1'', Expiration = 100\<rparr>) = None"
    by (simp add: poolUnknownHost_def)
  note th = RescindOffer_unknown_host [OF t h]
  have h': "hostOfferIndex poolUnknownHost ''agent1'' = None"
    using h by simp
  have f: "fst (RescindOffer ''offer1'' poolUnknownHost) = False"
    using th [THEN conjunct1] by (simp only: fst_conv)
  from t h' f th [THEN conjunct2] show ?thesis by blast
qed

end
